theory Spec2Isabelle
  imports Complex_Main "HOL-Library.Sublist"
begin


section \<open>Runtime primitives used by the service\<close>

text \<open>
  The TypeScript sources lean on a handful of ECMAScript built-ins. Each one is written
  out here as a function over \<open>string\<close> (a list of 8-bit characters, so the model covers
  ASCII text, which is what GTFS identifiers, times and dates are made of).
\<close>

text \<open>
  \<open>a < b\<close> on two strings: lexicographic comparison of the code units; a proper prefix
  is smaller.
\<close>

fun jsStrLess :: "string \<Rightarrow> string \<Rightarrow> bool" where
  "jsStrLess [] [] = False"
| "jsStrLess [] (y # ys) = True"
| "jsStrLess (x # xs) [] = False"
| "jsStrLess (x # xs) (y # ys) =
     (if (of_char x :: nat) < of_char y then True
      else if (of_char y :: nat) < of_char x then False
      else jsStrLess xs ys)"

text \<open>\<open>a >= b\<close> on strings is the negation of \<open>a < b\<close> (no operand is undefined or NaN).\<close>

definition jsStrGe :: "string \<Rightarrow> string \<Rightarrow> bool" where
  "jsStrGe a b = (\<not> jsStrLess a b)"

text \<open>
  \<open>String.prototype.endsWith(searchString)\<close> without a position: with \<open>len\<close> the length
  of the receiver and \<open>start = len - searchLength\<close>, the answer is false when \<open>start < 0\<close>
  and otherwise whether the code units from \<open>start\<close> to \<open>len\<close> are \<open>searchString\<close>.
\<close>

definition endsWith :: "string \<Rightarrow> string \<Rightarrow> bool" where
  "endsWith s searchString =
     (let len = length s; searchLength = length searchString
      in if len < searchLength then False
         else drop (len - searchLength) s = searchString)"

section \<open>Data model\<close>

text \<open>
  The live feed types come from the generated protobuf module, which the service only
  reads through optional chaining and \<open>undefined\<close> tests; every field is therefore an
  option. \<open>time\<close> is epoch seconds, \<open>delay\<close> is seconds.
\<close>

record StopTimeEvent =
  time :: "int option"
  delay :: "int option"

record StopTimeUpdate =
  stopId :: "string option"
  stopSequence :: "int option"
  arrival :: "StopTimeEvent option"
  departure :: "StopTimeEvent option"

record TripDescriptor =
  tripId :: "string option"

text \<open>The trip-level delay of a \<open>TripUpdate\<close> is the field \<open>tripDelay\<close> here.\<close>

record TripUpdate =
  trip :: "TripDescriptor option"
  stopTimeUpdate :: "StopTimeUpdate list option"
  tripDelay :: "int option"

record GTFSRealtimeData =
  trip_updates :: "TripUpdate list"
  last_updated :: int

text \<open>
  The static tables, all fields text as the CSV loader delivers them. A field name that
  occurs in two interfaces is prefixed in all but one of them: \<open>trip_route_id\<close>,
  \<open>trip_service_id\<close> and \<open>trip_shape_id\<close> are \<open>Trip.route_id\<close>, \<open>Trip.service_id\<close> and
  \<open>Trip.shape_id\<close>; \<open>st_trip_id\<close> and \<open>st_stop_id\<close> are \<open>StopTime.trip_id\<close> and
  \<open>StopTime.stop_id\<close>.
\<close>

record Agency =
  agency_name :: string
  agency_url :: string

record Route =
  route_id :: string
  route_short_name :: string
  route_long_name :: string
  route_type :: string
  route_color :: "string option"
  route_text_color :: "string option"

record Stop =
  stop_id :: string
  stop_code :: "string option"
  stop_name :: string
  stop_lat :: string
  stop_lon :: string
  parent_station :: "string option"
  platform_code :: "string option"

record Trip =
  trip_route_id :: string
  trip_service_id :: string
  trip_id :: string
  trip_headsign :: "string option"
  direction_id :: "string option"
  trip_shape_id :: "string option"

record StopTime =
  st_trip_id :: string
  arrival_time :: string
  departure_time :: string
  st_stop_id :: string
  stop_sequence :: string
  shape_distance_traveled :: "string option"

record Calendar =
  service_id :: string
  monday :: string
  tuesday :: string
  wednesday :: string
  thursday :: string
  friday :: string
  saturday :: string
  sunday :: string
  start_date :: string
  end_date :: string

record Shape =
  shape_id :: string
  shape_pt_lat :: string
  shape_pt_lon :: string
  shape_pt_sequence :: string
  shape_dist_traveled :: "string option"

record GTFSData =
  agencies :: "Agency list"
  routes :: "Route list"
  stops :: "Stop list"
  trips :: "Trip list"
  stopTimes :: "StopTime list"
  calendar :: "Calendar list"
  shapes :: "Shape list"

text \<open>Whatever a rejected promise or a \<open>throw\<close> carries.\<close>

datatype error =
    HttpError nat
  | NetworkError
  | BodyError
  | ParseError
  | LoadError string

section \<open>The live loader (\<open>realtime.ts\<close>)\<close>

text \<open>
  What \<open>fetch\<close> can do: reject, or resolve to a response with its \<open>ok\<close> flag, its status
  and the outcome of \<open>arrayBuffer()\<close> (\<open>None\<close> when reading the body rejects).
\<close>

datatype 'b FetchResult =
    FetchRejected
  | Response bool nat "'b option"

record FeedHeader =
  timestamp :: "int option"

record FeedEntity =
  tripUpdate :: "TripUpdate option"

record FeedMessage =
  header :: "FeedHeader option"
  entity :: "FeedEntity list option"

text \<open>
  \<open>parseFeedMessage\<close>: decode, log and rethrow. The protobuf decoder is the parameter
  \<open>decode\<close>.
\<close>

definition parseFeedMessage :: "('b \<Rightarrow> error + FeedMessage) \<Rightarrow> 'b \<Rightarrow> error + FeedMessage" where
  "parseFeedMessage decode buffer =
     (case decode buffer of Inl e \<Rightarrow> Inl e | Inr m \<Rightarrow> Inr m)"

text \<open>
  The body of the \<open>try\<close> block of \<open>fetchGTFSRealtimeData\<close>. \<open>now\<close> is what \<open>Date.now()\<close>
  returns. A header timestamp of 0 is falsy.
\<close>

definition fetchAttempt ::
  "'b FetchResult \<Rightarrow> ('b \<Rightarrow> error + FeedMessage) \<Rightarrow> int \<Rightarrow> error + GTFSRealtimeData" where
  "fetchAttempt response decode now =
     (case response of
        FetchRejected \<Rightarrow> Inl NetworkError
      | Response ok status body \<Rightarrow>
          if \<not> ok then Inl (HttpError status)
          else (case body of
                  None \<Rightarrow> Inl BodyError
                | Some buffer \<Rightarrow>
                    (case parseFeedMessage decode buffer of
                       Inl e \<Rightarrow> Inl e
                     | Inr feedMessage \<Rightarrow>
                         Inr \<lparr>trip_updates =
                                (case entity feedMessage of
                                   None \<Rightarrow> []
                                 | Some es \<Rightarrow>
                                     map (\<lambda>e. the (tripUpdate e))
                                       (filter (\<lambda>e. tripUpdate e \<noteq> None) es)),
                              last_updated =
                                (case header feedMessage of
                                   None \<Rightarrow> now
                                 | Some h \<Rightarrow>
                                     (case timestamp h of
                                        None \<Rightarrow> now
                                      | Some ts \<Rightarrow> if ts = 0 then now else ts * 1000))\<rparr>)))"

text \<open>
  \<open>fetchGTFSRealtimeData\<close>: the \<open>try\<close> block, and the \<open>catch\<close> that turns every failure
  into the empty snapshot. The result type keeps room for a propagated error (\<open>Inl\<close>).
\<close>

definition fetchGTFSRealtimeData ::
  "'b FetchResult \<Rightarrow> ('b \<Rightarrow> error + FeedMessage) \<Rightarrow> int \<Rightarrow> error + GTFSRealtimeData" where
  "fetchGTFSRealtimeData response decode now =
     (case fetchAttempt response decode now of
        Inr snapshot \<Rightarrow> Inr snapshot
      | Inl e \<Rightarrow> Inr \<lparr>trip_updates = [], last_updated = now\<rparr>)"

section \<open>The refresh cache (\<open>GTFSService\<close>)\<close>

record GTFSService =
  gtfsData :: "GTFSData option"
  realtimeData :: "GTFSRealtimeData option"
  lastDataLoad :: int
  lastRealtimeUpdate :: int

definition CACHE_DURATION :: int where
  "CACHE_DURATION = 5 * 60 * 1000"

definition REALTIME_CACHE_DURATION :: int where
  "REALTIME_CACHE_DURATION = 30 * 1000"

text \<open>A new \<open>GTFSService\<close>.\<close>

definition newGTFSService :: GTFSService where
  "newGTFSService =
     \<lparr>gtfsData = None, realtimeData = None, lastDataLoad = 0, lastRealtimeUpdate = 0\<rparr>"

text \<open>
  The world outside the service: how often each loader has been invoked so far. The
  loaders themselves are oracles indexed by the invocation number: \<open>loadGTFSData k\<close> is
  what the \<open>k\<close>-th call of the static loader resolves to or throws.
\<close>

record world =
  staticLoads :: nat
  liveLoads :: nat

text \<open>
  \<open>ensureGTFSData\<close>. \<open>now\<close> is \<open>Date.now()\<close> in epoch milliseconds. A rejected load
  leaves both fields as they were: the assignments come after the \<open>await\<close>.
\<close>

definition ensureGTFSData ::
  "(nat \<Rightarrow> error + GTFSData) \<Rightarrow> int \<Rightarrow> GTFSService \<times> world
     \<Rightarrow> (error + GTFSData) \<times> GTFSService \<times> world" where
  "ensureGTFSData loadGTFSData now sw =
     (let svc = fst sw; w = snd sw;
          reload =
            (case loadGTFSData (staticLoads w) of
               Inl e \<Rightarrow> (Inl e, svc, w\<lparr>staticLoads := Suc (staticLoads w)\<rparr>)
             | Inr d \<Rightarrow>
                 (Inr d, svc\<lparr>gtfsData := Some d, lastDataLoad := now\<rparr>,
                  w\<lparr>staticLoads := Suc (staticLoads w)\<rparr>))
      in case gtfsData svc of
           None \<Rightarrow> reload
         | Some d \<Rightarrow>
             if now - lastDataLoad svc > CACHE_DURATION then reload
             else (Inr d, svc, w))"

text \<open>
  \<open>ensureRealtimeData\<close>. The \<open>k\<close>-th call of \<open>fetchGTFSRealtimeData\<close> sees the response
  \<open>fst (net k)\<close> and reads the clock as \<open>snd (net k)\<close>.
\<close>

definition ensureRealtimeData ::
  "(nat \<Rightarrow> 'b FetchResult \<times> int) \<Rightarrow> ('b \<Rightarrow> error + FeedMessage) \<Rightarrow> int
     \<Rightarrow> GTFSService \<times> world \<Rightarrow> (error + GTFSRealtimeData) \<times> GTFSService \<times> world" where
  "ensureRealtimeData net decode now sw =
     (let svc = fst sw; w = snd sw;
          reload =
            (case fetchGTFSRealtimeData (fst (net (liveLoads w))) decode
                    (snd (net (liveLoads w))) of
               Inl e \<Rightarrow> (Inl e, svc, w\<lparr>liveLoads := Suc (liveLoads w)\<rparr>)
             | Inr r \<Rightarrow>
                 (Inr r, svc\<lparr>realtimeData := Some r, lastRealtimeUpdate := now\<rparr>,
                  w\<lparr>liveLoads := Suc (liveLoads w)\<rparr>))
      in case realtimeData svc of
           None \<Rightarrow> reload
         | Some r \<Rightarrow>
             if now - lastRealtimeUpdate svc > REALTIME_CACHE_DURATION then reload
             else (Inr r, svc, w))"

section \<open>Matching a live update to a static trip\<close>

text \<open>\<open>update.trip?.tripId\<close>\<close>

definition tripIdOf :: "TripUpdate \<Rightarrow> string option" where
  "tripIdOf update = (case trip update of None \<Rightarrow> None | Some td \<Rightarrow> tripId td)"

text \<open>
  The predicate handed to \<open>find\<close>:
  \<open>update.trip?.tripId && staticTripId.endsWith(update.trip.tripId)\<close>.
  An undefined or empty identifier is falsy.
\<close>

definition tripIdMatches :: "string \<Rightarrow> TripUpdate \<Rightarrow> bool" where
  "tripIdMatches staticTripId update =
     (case tripIdOf update of
        None \<Rightarrow> False
      | Some tid \<Rightarrow> tid \<noteq> [] \<and> endsWith staticTripId tid)"

text \<open>
  \<open>realtimeData.trip_updates.find(...)\<close>, as it appears in \<open>getUpcomingDepartures\<close>,
  \<open>getTripInfo\<close>, \<open>getTripSchedule\<close> and \<open>calculateTripProgress\<close>.
\<close>

definition findTripUpdate :: "string \<Rightarrow> GTFSRealtimeData \<Rightarrow> TripUpdate option" where
  "findTripUpdate staticTripId rt =
     find (tripIdMatches staticTripId) (trip_updates rt)"

section \<open>Numbers and text\<close>

text \<open>
  A JavaScript number, as far as the service computes with one: an exact rational, or
  NaN. Rounding error of the binary representation and the two infinities are outside
  this model.
\<close>

datatype jsnum = Num rat | NaN

fun jsAdd :: "jsnum \<Rightarrow> jsnum \<Rightarrow> jsnum" where
  "jsAdd (Num a) (Num b) = Num (a + b)"
| "jsAdd _ _ = NaN"

fun jsSub :: "jsnum \<Rightarrow> jsnum \<Rightarrow> jsnum" where
  "jsSub (Num a) (Num b) = Num (a - b)"
| "jsSub _ _ = NaN"

fun jsMul :: "jsnum \<Rightarrow> jsnum \<Rightarrow> jsnum" where
  "jsMul (Num a) (Num b) = Num (a * b)"
| "jsMul _ _ = NaN"

text \<open>\<open>x > 0\<close>: false for NaN.\<close>

fun jsPositive :: "jsnum \<Rightarrow> bool" where
  "jsPositive (Num a) = (0 < a)"
| "jsPositive NaN = False"

text \<open>\<open>Math.min(x, 100)\<close> and \<open>Math.round\<close> (nearest integer, ties upwards); both keep NaN.\<close>

fun mathMin :: "jsnum \<Rightarrow> rat \<Rightarrow> jsnum" where
  "mathMin (Num a) b = Num (min a b)"
| "mathMin NaN b = NaN"

fun mathRound :: "jsnum \<Rightarrow> jsnum" where
  "mathRound (Num a) = Num (of_int (floor (a + 1 / 2)))"
| "mathRound NaN = NaN"

definition isDigit :: "char \<Rightarrow> bool" where
  "isDigit c = (48 \<le> (of_char c :: nat) \<and> (of_char c :: nat) \<le> 57)"

definition digitVal :: "char \<Rightarrow> nat" where
  "digitVal c = of_char c - 48"

text \<open>Tab, line feed, vertical tab, form feed, carriage return and space.\<close>

definition isWhite :: "char \<Rightarrow> bool" where
  "isWhite c = ((of_char c :: nat) \<in> {9, 10, 11, 12, 13, 32})"

definition digitsVal :: "string \<Rightarrow> nat" where
  "digitsVal ds = foldl (\<lambda>a c. 10 * a + digitVal c) 0 ds"

definition trimStart :: "string \<Rightarrow> string" where
  "trimStart s = dropWhile isWhite s"

definition trim :: "string \<Rightarrow> string" where
  "trim s = rev (dropWhile isWhite (rev (dropWhile isWhite s)))"

text \<open>
  The exponent part of a decimal literal at the front of \<open>s\<close>: \<open>e\<close> or \<open>E\<close>, an optional
  sign and at least one digit. Returns the exponent and what follows it; when \<open>s\<close> does
  not start with a complete exponent part, the exponent is 0 and nothing is consumed.
\<close>

definition exponentPart :: "string \<Rightarrow> int \<times> string" where
  "exponentPart s =
     (case s of
        [] \<Rightarrow> (0, s)
      | c # r \<Rightarrow>
          if c = CHR ''e'' \<or> c = CHR ''E'' then
            (let neg = (r \<noteq> [] \<and> hd r = CHR ''-'');
                 r' = (if r \<noteq> [] \<and> (hd r = CHR ''-'' \<or> hd r = CHR ''+'') then tl r else r);
                 ds = takeWhile isDigit r'
             in if ds = [] then (0, s)
                else ((if neg then - int (digitsVal ds) else int (digitsVal ds)),
                      dropWhile isDigit r'))
          else (0, s))"

text \<open>
  The longest prefix of \<open>s\<close> that is a signed decimal literal (digits with an optional
  fraction, or a fraction alone, then an optional exponent part), with its value and the
  rest of \<open>s\<close>; \<open>None\<close> when \<open>s\<close> does not start with one.
\<close>

definition decimalPrefix :: "string \<Rightarrow> (rat \<times> string) option" where
  "decimalPrefix s =
     (let neg = (s \<noteq> [] \<and> hd s = CHR ''-'');
          s1 = (if s \<noteq> [] \<and> (hd s = CHR ''-'' \<or> hd s = CHR ''+'') then tl s else s);
          ip = takeWhile isDigit s1;
          s2 = dropWhile isDigit s1;
          hasDot = (s2 \<noteq> [] \<and> hd s2 = CHR ''.'');
          fp = (if hasDot then takeWhile isDigit (tl s2) else []);
          s3 = (if hasDot then dropWhile isDigit (tl s2) else s2)
      in if ip = [] \<and> fp = [] then None
         else (let ex = exponentPart s3;
                   m = of_nat (digitsVal (ip @ fp)) / 10 ^ length fp;
                   v = (if fst ex < 0 then m / 10 ^ nat (- fst ex) else m * 10 ^ nat (fst ex))
               in Some ((if neg then - v else v), snd ex)))"

text \<open>
  \<open>parseFloat\<close>: leading white space is skipped, then the longest decimal literal is
  read; anything after it is ignored, and NaN results when there is none. (The literal
  \<open>Infinity\<close> is outside this model of numbers.)
\<close>

definition parseFloat :: "string \<Rightarrow> jsnum" where
  "parseFloat s =
     (case decimalPrefix (trimStart s) of
        None \<Rightarrow> NaN
      | Some (v, rest) \<Rightarrow> Num v)"

text \<open>
  \<open>Number\<close> applied to a string: white space is trimmed on both sides, the empty string
  is 0, a decimal literal that spans the whole string is its value, and everything else
  is NaN. (Literals with a radix prefix and \<open>Infinity\<close> are outside this model.)
\<close>

definition Number :: "string \<Rightarrow> jsnum" where
  "Number s =
     (let t = trim s
      in if t = [] then Num 0
         else (case decimalPrefix t of
                 None \<Rightarrow> NaN
               | Some (v, rest) \<Rightarrow> if rest = [] then Num v else NaN))"

text \<open>
  \<open>parseInt\<close> with no radix: leading white space is skipped, a sign is read, a prefix
  \<open>0x\<close> or \<open>0X\<close> selects radix 16, and the longest run of digits of the radix is the
  value; \<open>None\<close> is NaN.
\<close>

definition hexVal :: "char \<Rightarrow> nat option" where
  "hexVal c =
     (let n = (of_char c :: nat)
      in if 48 \<le> n \<and> n \<le> 57 then Some (n - 48)
         else if 97 \<le> n \<and> n \<le> 102 then Some (n - 87)
         else if 65 \<le> n \<and> n \<le> 70 then Some (n - 55)
         else None)"

definition parseInt :: "string \<Rightarrow> int option" where
  "parseInt s =
     (let s0 = trimStart s;
          neg = (s0 \<noteq> [] \<and> hd s0 = CHR ''-'');
          s1 = (if s0 \<noteq> [] \<and> (hd s0 = CHR ''-'' \<or> hd s0 = CHR ''+'') then tl s0 else s0);
          hex = (case s1 of
                   a # b # r \<Rightarrow> a = CHR ''0'' \<and> (b = CHR ''x'' \<or> b = CHR ''X'')
                 | _ \<Rightarrow> False);
          s2 = (if hex then drop 2 s1 else s1);
          ds = (if hex then takeWhile (\<lambda>c. hexVal c \<noteq> None) s2 else takeWhile isDigit s2);
          v = (if hex then foldl (\<lambda>a c. 16 * a + the (hexVal c)) 0 ds else digitsVal ds)
      in if ds = [] then None
         else Some (if neg then - int v else int v))"

text \<open>\<open>s.split(sep)\<close> for a one-character separator.\<close>

fun split :: "char \<Rightarrow> string \<Rightarrow> string list" where
  "split sep [] = [[]]"
| "split sep (c # cs) =
     (if c = sep then [] # split sep cs
      else (case split sep cs of
              [] \<Rightarrow> [[c]]
            | p # ps \<Rightarrow> (c # p) # ps))"

text \<open>
  \<open>toLowerCase\<close> on ASCII text: the letters A to Z are mapped to a to z, every other
  character is kept.
\<close>

definition lowerChar :: "char \<Rightarrow> char" where
  "lowerChar c =
     (case map_of (zip ''ABCDEFGHIJKLMNOPQRSTUVWXYZ'' ''abcdefghijklmnopqrstuvwxyz'') c of
        None \<Rightarrow> c
      | Some l \<Rightarrow> l)"

definition toLowerCase :: "string \<Rightarrow> string" where
  "toLowerCase s = map lowerChar s"

text \<open>The decimal digits of a natural number, as template literals print them.\<close>

function showNat :: "nat \<Rightarrow> string" where
  "showNat n =
     (if n < 10 then [''0123456789'' ! n]
      else showNat (n div 10) @ [''0123456789'' ! (n mod 10)])"
  by pat_completeness auto
termination
  by (relation "measure id") auto

text \<open>
  \<open>Array.prototype.sort(compare)\<close>: a stable sort; an element stays in front of the
  elements it does not compare greater than. (For a comparator that is not a
  consistent ordering the order is implementation-defined; this is one such order.)
\<close>

fun insertSorted :: "('a \<Rightarrow> 'a \<Rightarrow> int) \<Rightarrow> 'a \<Rightarrow> 'a list \<Rightarrow> 'a list" where
  "insertSorted compare x [] = [x]"
| "insertSorted compare x (y # ys) =
     (if compare x y \<le> 0 then x # y # ys else y # insertSorted compare x ys)"

definition arraySort :: "('a \<Rightarrow> 'a \<Rightarrow> int) \<Rightarrow> 'a list \<Rightarrow> 'a list" where
  "arraySort compare xs = foldr (insertSorted compare) xs []"

text \<open>
  \<open>xs.slice(0, end)\<close> for an integral \<open>end\<close>: a negative \<open>end\<close> counts from the back of
  the array.
\<close>

definition slice0 :: "int \<Rightarrow> 'a list \<Rightarrow> 'a list" where
  "slice0 end xs =
     (let len = int (length xs);
          final = (if end < 0 then max (len + end) 0 else min end len)
      in take (nat final) xs)"

text \<open>
  The comparator \<open>(a, b) => parseInt(a) - parseInt(b)\<close> on two sequence strings; a NaN
  result counts as 0.
\<close>

definition compareSequence :: "string \<Rightarrow> string \<Rightarrow> int" where
  "compareSequence a b =
     (case parseInt a of
        None \<Rightarrow> 0
      | Some x \<Rightarrow> (case parseInt b of None \<Rightarrow> 0 | Some y \<Rightarrow> x - y))"

declare showNat.simps [simp del]

text \<open>A string that may be undefined is truthy when it is present and not empty.\<close>

definition truthy :: "string option \<Rightarrow> bool" where
  "truthy x = (case x of None \<Rightarrow> False | Some s \<Rightarrow> s \<noteq> [])"

text \<open>\<open>x || fallback\<close> for a string that may be undefined.\<close>

definition orElse :: "string option \<Rightarrow> string \<Rightarrow> string" where
  "orElse x fallback = (case x of None \<Rightarrow> fallback | Some s \<Rightarrow> if s = [] then fallback else s)"

text \<open>\<open>Array.from(new Set(xs))\<close>: the first occurrence of every element, in order.\<close>

definition uniqueInOrder :: "'a list \<Rightarrow> 'a list" where
  "uniqueInOrder xs = foldl (\<lambda>acc x. if x \<in> set acc then acc else acc @ [x]) [] xs"

section \<open>Delay formatting and arrival estimates (\<open>realtime.ts\<close>)\<close>

definition formatDelay :: "int \<Rightarrow> string" where
  "formatDelay delaySeconds =
     (if delaySeconds = 0 then ''On time''
      else (let minutes = nat \<bar>delaySeconds\<bar> div 60;
                seconds = nat \<bar>delaySeconds\<bar> mod 60
            in if delaySeconds > 0
               then showNat minutes @ ''m '' @ showNat seconds @ ''s late''
               else showNat minutes @ ''m '' @ showNat seconds @ ''s early''))"

text \<open>
  \<open>new Date(ms).toLocaleTimeString("en-US", {hour12: false, hour: "2-digit", minute:
  "2-digit"})\<close>. No \<open>timeZone\<close> option is given, so the text is the wall clock of the
  zone the host runs in; that formatter is the parameter \<open>hostClock\<close>, from integral epoch
  milliseconds to text. A date built from NaN or from a value beyond the range of dates
  is invalid; a fractional value is truncated.
\<close>

definition dateToLocaleTime :: "(int \<Rightarrow> string) \<Rightarrow> jsnum \<Rightarrow> string" where
  "dateToLocaleTime hostClock ms =
     (case ms of
        NaN \<Rightarrow> ''Invalid Date''
      | Num v \<Rightarrow>
          if \<bar>v\<bar> > 8640000000000000 then ''Invalid Date''
          else hostClock (if 0 \<le> v then floor v else ceiling v))"

record ArrivalEstimate =
  arr_time :: string
  arr_delay :: "string option"
  isRealtime :: bool

text \<open>
  \<open>const [hours, minutes, seconds] = scheduledTime.split(":").map(Number)\<close>, then
  \<open>(hours * 3600 + minutes * 60 + seconds) * 1000\<close>. A missing part is undefined and
  makes the sum NaN.
\<close>

definition scheduledMs :: "string \<Rightarrow> jsnum" where
  "scheduledMs scheduledTime =
     (case map Number (split CHR '':'' scheduledTime) of
        hours # minutes # seconds # rest \<Rightarrow>
          jsMul (jsAdd (jsAdd (jsMul hours (Num 3600)) (jsMul minutes (Num 60))) seconds)
                (Num 1000)
      | _ \<Rightarrow> NaN)"

text \<open>
  A number that may be undefined, used as a condition: the value when it is present and
  not 0.
\<close>

definition nonZero :: "int option \<Rightarrow> int option" where
  "nonZero x = (case x of None \<Rightarrow> None | Some v \<Rightarrow> if v = 0 then None else Some v)"

text \<open>\<open>getRealtimeArrivalTime\<close>\<close>

definition getRealtimeArrivalTime ::
  "(int \<Rightarrow> string) \<Rightarrow> string \<Rightarrow> StopTimeUpdate option \<Rightarrow> ArrivalEstimate" where
  "getRealtimeArrivalTime hostClock scheduledTime stu =
     (case (case stu of None \<Rightarrow> None | Some u \<Rightarrow> arrival u) of
        None \<Rightarrow> \<lparr>arr_time = scheduledTime, arr_delay = None, isRealtime = False\<rparr>
      | Some arr \<Rightarrow>
          (case nonZero (time arr) of
             Some t \<Rightarrow>
               \<lparr>arr_time = dateToLocaleTime hostClock (Num (of_int (t * 1000))),
                arr_delay = (case nonZero (delay arr) of
                               None \<Rightarrow> None
                             | Some d \<Rightarrow> Some (formatDelay d)),
                isRealtime = True\<rparr>
           | None \<Rightarrow>
               (case nonZero (delay arr) of
                  Some d \<Rightarrow>
                    (let adjustedMs = jsAdd (scheduledMs scheduledTime) (Num (of_int (d * 1000)))
                     in \<lparr>arr_time = dateToLocaleTime hostClock adjustedMs,
                         arr_delay = Some (formatDelay d),
                         isRealtime = True\<rparr>)
                | None \<Rightarrow>
                    \<lparr>arr_time = scheduledTime, arr_delay = None, isRealtime = False\<rparr>)))"

section \<open>Calendar activity in Eastern time (\<open>timezone.ts\<close>)\<close>

text \<open>
  \<open>unixTimestampToEasternTime\<close>. The parameter \<open>easternClock\<close> is the formatter
  \<open>toLocaleTimeString("en-US", {timeZone: "America/New_York", hour12: false, ...})\<close> with
  two-digit hour, minute and second, from epoch milliseconds to text.
\<close>

definition unixTimestampToEasternTime :: "(int \<Rightarrow> string) \<Rightarrow> int \<Rightarrow> string" where
  "unixTimestampToEasternTime easternClock ts = easternClock (ts * 1000)"


text \<open>Decimal digits, padded with zeros on the left to at least \<open>w\<close> characters.\<close>

definition padStart :: "nat \<Rightarrow> nat \<Rightarrow> string" where
  "padStart w n = replicate (w - length (showNat n)) CHR ''0'' @ showNat n"





section \<open>Queries of the service (\<open>gtfs-service.ts\<close>)\<close>

text \<open>
  The queries below take the two snapshots that \<open>ensureGTFSData\<close> and
  \<open>ensureRealtimeData\<close> hand out, and the readings of the clock they make.
\<close>

text \<open>\<open>stu.stopId === stopId || stu.stopSequence === parseInt(stop_sequence)\<close>\<close>

definition stopUpdateMatches :: "string \<Rightarrow> string \<Rightarrow> StopTimeUpdate \<Rightarrow> bool" where
  "stopUpdateMatches sid seq stu =
     (stopId stu = Some sid
      \<or> (case stopSequence stu of
            None \<Rightarrow> False
          | Some n \<Rightarrow> parseInt seq = Some n))"

text \<open>\<open>realtimeUpdate?.stopTimeUpdate?.find(...)\<close>\<close>

definition findStopUpdate :: "TripUpdate option \<Rightarrow> string \<Rightarrow> string \<Rightarrow> StopTimeUpdate option" where
  "findStopUpdate realtimeUpdate sid seq =
     (case realtimeUpdate of
        None \<Rightarrow> None
      | Some u \<Rightarrow>
          (case stopTimeUpdate u of
             None \<Rightarrow> None
           | Some stus \<Rightarrow> find (stopUpdateMatches sid seq) stus))"

subsection \<open>Upcoming departures\<close>

datatype DelayStatus = on_time | late | early | scheduled

text \<open>
  \<open>UpcomingDeparture\<close>; \<open>dep_trip_id\<close>, \<open>dep_route_short_name\<close>, \<open>dep_trip_headsign\<close> and
  \<open>dep_route_color\<close> are its fields \<open>trip_id\<close>, \<open>route_short_name\<close>, \<open>trip_headsign\<close> and
  \<open>route_color\<close>.
\<close>

record UpcomingDeparture =
  dep_trip_id :: string
  dep_route_short_name :: string
  dep_trip_headsign :: string
  scheduled_departure :: string
  estimated_departure :: "string option"
  delay_seconds :: "int option"
  delay_status :: DelayStatus
  dep_route_color :: string

text \<open>
  The stop-times that \<open>getUpcomingDepartures\<close> keeps: of this stop, not before the current
  Eastern time text, sorted with \<open>localeCompare\<close> on the departure time, cut by \<open>slice(0,
  limit)\<close>. \<open>localeCompare\<close> is a parameter: its order is the collation of the runtime.
\<close>

definition stopStopTimes ::
  "(string \<Rightarrow> string \<Rightarrow> int) \<Rightarrow> GTFSData \<Rightarrow> string \<Rightarrow> string \<Rightarrow> int \<Rightarrow> StopTime list" where
  "stopStopTimes localeCompare g currentTimeStr sid limit =
     slice0 limit
       (arraySort (\<lambda>a b. localeCompare (departure_time a) (departure_time b))
          (filter (\<lambda>st. jsStrGe (departure_time st) currentTimeStr)
             (filter (\<lambda>st. st_stop_id st = sid) (stopTimes g))))"

text \<open>
  The three variables \<open>estimatedDeparture\<close>, \<open>delaySeconds\<close> and \<open>delayStatus\<close>: they start
  as undefined, undefined and \<open>scheduled\<close>, and are assigned inside
  \<open>if (stopUpdate?.departure)\<close>.
\<close>

definition departureFields ::
  "(int \<Rightarrow> string) \<Rightarrow> StopTimeUpdate option \<Rightarrow> string option \<times> int option \<times> DelayStatus" where
  "departureFields easternClock stopUpdate =
     (let init = (None, None, scheduled)
      in case stopUpdate of
           None \<Rightarrow> init
         | Some su \<Rightarrow>
             (case departure su of
                None \<Rightarrow> init
              | Some dep \<Rightarrow>
                  (let estimatedDeparture =
                         (case nonZero (time dep) of
                            Some t \<Rightarrow> Some (unixTimestampToEasternTime easternClock t)
                          | None \<Rightarrow> fst init);
                       delayPart =
                         (case delay dep of
                            Some delaySeconds \<Rightarrow>
                              (Some delaySeconds,
                               if delaySeconds = 0 then on_time
                               else if delaySeconds > 0 then late
                               else early)
                          | None \<Rightarrow> snd init)
                   in (estimatedDeparture, delayPart))))"

text \<open>The function mapped over the kept stop-times.\<close>

definition toUpcomingDeparture ::
  "(int \<Rightarrow> string) \<Rightarrow> GTFSData \<Rightarrow> GTFSRealtimeData \<Rightarrow> string \<Rightarrow> StopTime \<Rightarrow> UpcomingDeparture" where
  "toUpcomingDeparture easternClock g rt sid st =
     (let tripFound = find (\<lambda>t. trip_id t = st_trip_id st) (trips g);
          route = (case tripFound of
                     None \<Rightarrow> None
                   | Some t \<Rightarrow> find (\<lambda>r. route_id r = trip_route_id t) (routes g));
          realtimeUpdate = findTripUpdate (st_trip_id st) rt;
          stopUpdate = findStopUpdate realtimeUpdate sid (stop_sequence st);
          fields = departureFields easternClock stopUpdate
      in \<lparr>dep_trip_id = st_trip_id st,
          dep_route_short_name =
            orElse (map_option route_short_name route) ''Unknown'',
          dep_trip_headsign =
            orElse (case tripFound of None \<Rightarrow> None | Some t \<Rightarrow> trip_headsign t)
                   ''Unknown Destination'',
          scheduled_departure = departure_time st,
          estimated_departure = fst fields,
          delay_seconds = fst (snd fields),
          delay_status = snd (snd fields),
          dep_route_color =
            orElse (case route of None \<Rightarrow> None | Some r \<Rightarrow> route_color r) ''666666''\<rparr>)"

definition getUpcomingDepartures ::
  "(string \<Rightarrow> string \<Rightarrow> int) \<Rightarrow> (int \<Rightarrow> string) \<Rightarrow> GTFSData \<Rightarrow> GTFSRealtimeData
     \<Rightarrow> string \<Rightarrow> string \<Rightarrow> int \<Rightarrow> UpcomingDeparture list" where
  "getUpcomingDepartures localeCompare easternClock g rt currentTimeStr sid limit =
     map (toUpcomingDeparture easternClock g rt sid)
         (stopStopTimes localeCompare g currentTimeStr sid limit)"

subsection \<open>Trip progress\<close>

text \<open>\<open>ev?.time && ev.time < now\<close> for an arrival or departure event.\<close>

definition eventPassed :: "StopTimeEvent option \<Rightarrow> int \<Rightarrow> bool" where
  "eventPassed ev now =
     (case ev of
        None \<Rightarrow> False
      | Some e \<Rightarrow> (case nonZero (time e) of None \<Rightarrow> False | Some t \<Rightarrow> t < now))"

definition departurePassed :: "StopTimeUpdate option \<Rightarrow> int \<Rightarrow> bool" where
  "departurePassed stopUpdate now =
     eventPassed (case stopUpdate of None \<Rightarrow> None | Some su \<Rightarrow> departure su) now"

definition arrivalPassed :: "StopTimeUpdate option \<Rightarrow> int \<Rightarrow> bool" where
  "arrivalPassed stopUpdate now =
     eventPassed (case stopUpdate of None \<Rightarrow> None | Some su \<Rightarrow> arrival su) now"

text \<open>The live update looked up for the stop-time at index \<open>i\<close> inside the loop.\<close>

definition stopUpdateAt :: "StopTime list \<Rightarrow> StopTimeUpdate list \<Rightarrow> nat \<Rightarrow> StopTimeUpdate option" where
  "stopUpdateAt tripStopTimes stus i =
     find (stopUpdateMatches (st_stop_id (tripStopTimes ! i)) (stop_sequence (tripStopTimes ! i)))
          stus"

text \<open>
  The \<open>for\<close> loop of \<open>calculateTripProgress\<close>, from index \<open>i\<close> with the current value of
  \<open>currentStopIndex\<close>; the result is \<open>currentStopIndex\<close> after the loop.
\<close>

function scanStops :: "StopTime list \<Rightarrow> StopTimeUpdate list \<Rightarrow> int \<Rightarrow> nat \<Rightarrow> nat \<Rightarrow> nat" where
  "scanStops tripStopTimes stus now i currentStopIndex =
     (if i < length tripStopTimes then
        (if departurePassed (stopUpdateAt tripStopTimes stus i) now then
           scanStops tripStopTimes stus now (i + 1) (min (i + 1) (length tripStopTimes - 1))
         else if arrivalPassed (stopUpdateAt tripStopTimes stus i) now then i
         else scanStops tripStopTimes stus now (i + 1) currentStopIndex)
      else currentStopIndex)"
  by pat_completeness auto
termination
  by (relation "measure (\<lambda>(tripStopTimes, stus, now, i, c). length tripStopTimes - i)") auto

declare scanStops.simps [simp del]

text \<open>\<open>a / b\<close> where the service has made sure that \<open>b\<close> is a positive number.\<close>

fun jsDiv :: "jsnum \<Rightarrow> jsnum \<Rightarrow> jsnum" where
  "jsDiv (Num a) (Num b) = (if b = 0 then NaN else Num (a / b))"
| "jsDiv _ _ = NaN"

text \<open>\<open>parseFloat(st.shape_distance_traveled!)\<close>\<close>

definition distanceOf :: "StopTime \<Rightarrow> jsnum" where
  "distanceOf st =
     (case shape_distance_traveled st of None \<Rightarrow> NaN | Some s \<Rightarrow> parseFloat s)"

text \<open>
  The value of \<open>progress\<close> before rounding, for a list of stop-times that is not empty and
  an index inside it.
\<close>

definition rawProgress :: "StopTime list \<Rightarrow> nat \<Rightarrow> jsnum" where
  "rawProgress tripStopTimes currentStopIndex =
     (let currentStop = tripStopTimes ! currentStopIndex;
          firstStop = tripStopTimes ! 0;
          lastStop = tripStopTimes ! (length tripStopTimes - 1)
      in if truthy (shape_distance_traveled currentStop)
            \<and> truthy (shape_distance_traveled firstStop)
            \<and> truthy (shape_distance_traveled lastStop)
         then (let currentDistance = distanceOf currentStop;
                   startDistance = distanceOf firstStop;
                   totalDistance = jsSub (distanceOf lastStop) startDistance
               in if jsPositive totalDistance
                  then jsMul (jsDiv (jsSub currentDistance startDistance) totalDistance) (Num 100)
                  else Num 0)
         else jsMul (jsDiv (Num (of_nat currentStopIndex))
                           (Num (of_nat (max (length tripStopTimes - 1) 1))))
                    (Num 100))"

record TripProgress =
  progress :: jsnum
  currentStop :: "string option"
  nextStop :: "string option"

text \<open>The stop-times of a trip, sorted by \<open>parseInt(stop_sequence)\<close>.\<close>

definition tripStopTimesOf :: "GTFSData \<Rightarrow> string \<Rightarrow> StopTime list" where
  "tripStopTimesOf g tid =
     arraySort (\<lambda>a b. compareSequence (stop_sequence a) (stop_sequence b))
       (filter (\<lambda>st. st_trip_id st = tid) (stopTimes g))"

definition stopNameOf :: "GTFSData \<Rightarrow> string \<Rightarrow> string option" where
  "stopNameOf g sid = map_option stop_name (find (\<lambda>s. stop_id s = sid) (stops g))"

text \<open>
  \<open>calculateTripProgress\<close>; \<open>nowMs\<close> is \<open>Date.now()\<close>. \<open>None\<close> is the \<open>null\<close> result.
\<close>

definition calculateTripProgress ::
  "string \<Rightarrow> GTFSData \<Rightarrow> GTFSRealtimeData \<Rightarrow> int \<Rightarrow> TripProgress option" where
  "calculateTripProgress tid g rt nowMs =
     (let tripStopTimes = tripStopTimesOf g tid
      in if tripStopTimes = [] then None
         else (case findTripUpdate tid rt of
                 None \<Rightarrow> None
               | Some realtimeUpdate \<Rightarrow>
                   (case stopTimeUpdate realtimeUpdate of
                      None \<Rightarrow> None
                    | Some stus \<Rightarrow>
                        (let now = nowMs div 1000;
                             currentStopIndex = scanStops tripStopTimes stus now 0 0;
                             nextStopIndex = min (currentStopIndex + 1) (length tripStopTimes - 1);
                             currentStopName =
                               stopNameOf g (st_stop_id (tripStopTimes ! currentStopIndex));
                             nextStopName =
                               stopNameOf g (st_stop_id (tripStopTimes ! nextStopIndex))
                         in Some \<lparr>progress =
                                    mathRound (mathMin (rawProgress tripStopTimes currentStopIndex)
                                                       100),
                                  currentStop = currentStopName,
                                  nextStop =
                                    (if currentStopIndex < length tripStopTimes - 1
                                     then nextStopName else currentStopName)\<rparr>))))"

subsection \<open>Route shape\<close>

record Marker =
  lat :: jsnum
  lng :: jsnum
  marker_name :: string
  marker_stopId :: string

record RouteShape =
  coordinates :: "(jsnum \<times> jsnum) list"
  color :: string
  routeName :: string
  filteredSegment :: bool
  startMarker :: "Marker option"
  endMarker :: "Marker option"

text \<open>The route that \<open>getRouteShape\<close> works on: \<open>gtfsData.routes.find(...)\<close>.\<close>

definition findRoute :: "GTFSData \<Rightarrow> string \<Rightarrow> Route option" where
  "findRoute g rid =
     find (\<lambda>r. route_id r = rid \<or> toLowerCase (route_short_name r) = toLowerCase rid)
          (routes g)"

definition findStopCoordinates :: "GTFSData \<Rightarrow> string \<Rightarrow> Marker option" where
  "findStopCoordinates g sid =
     (let direct = find (\<lambda>s. stop_id s = sid) (stops g);
          viaPlatform =
            (case direct of
               Some s \<Rightarrow> Some s
             | None \<Rightarrow>
                 (case filter (\<lambda>s. parent_station s = Some sid) (stops g) of
                    [] \<Rightarrow> None
                  | p # ps \<Rightarrow> Some p));
          viaParent =
            (case viaPlatform of
               Some s \<Rightarrow> Some s
             | None \<Rightarrow>
                 (case find (\<lambda>s. stop_id s = sid) (stops g) of
                    None \<Rightarrow> None
                  | Some thisStop \<Rightarrow>
                      if truthy (parent_station thisStop)
                      then find (\<lambda>s. Some (stop_id s) = parent_station thisStop) (stops g)
                      else None))
      in case viaParent of
           None \<Rightarrow> None
         | Some s \<Rightarrow>
             Some \<lparr>lat = parseFloat (stop_lat s), lng = parseFloat (stop_lon s),
                   marker_name = stop_name s, marker_stopId = stop_id s\<rparr>)"

text \<open>The part of \<open>getRouteShape\<close> that follows the lookup of the route.\<close>

definition shapeOfRoute :: "GTFSData \<Rightarrow> Route \<Rightarrow> string option \<Rightarrow> string option \<Rightarrow> RouteShape option" where
  "shapeOfRoute g route startStopId endStopId =
     (let routeTrips = filter (\<lambda>t. trip_route_id t = route_id route) (trips g)
      in if routeTrips = [] then None
         else (case uniqueInOrder
                      (map (\<lambda>t. orElse (trip_shape_id t) [])
                           (filter (\<lambda>t. truthy (trip_shape_id t)) routeTrips)) of
                 [] \<Rightarrow> None
               | shapeId # others \<Rightarrow>
                   (let shapePoints =
                          arraySort (\<lambda>a b. compareSequence (shape_pt_sequence a)
                                                             (shape_pt_sequence b))
                            (filter (\<lambda>s. shape_id s = shapeId) (shapes g))
                    in if shapePoints = [] then None
                       else Some
                         \<lparr>coordinates =
                            map (\<lambda>p. (parseFloat (shape_pt_lat p), parseFloat (shape_pt_lon p)))
                                shapePoints,
                          color = ''#'' @ orElse (route_color route) ''666666'',
                          routeName = route_short_name route @ '' - '' @ route_long_name route,
                          filteredSegment = False,
                          startMarker =
                            (case startStopId of
                               None \<Rightarrow> None
                             | Some s \<Rightarrow> if s = [] then None else findStopCoordinates g s),
                          endMarker =
                            (case endStopId of
                               None \<Rightarrow> None
                             | Some s \<Rightarrow> if s = [] then None else findStopCoordinates g s)\<rparr>)))"

definition getRouteShape ::
  "GTFSData \<Rightarrow> string \<Rightarrow> string option \<Rightarrow> string option \<Rightarrow> RouteShape option" where
  "getRouteShape g rid startStopId endStopId =
     (case findRoute g rid of
        None \<Rightarrow> None
      | Some route \<Rightarrow> shapeOfRoute g route startStopId endStopId)"

section \<open>Instances for the examples\<close>

text \<open>
  Instances of the formatter parameters: the wall clock of a zone at a fixed offset
  from UTC (in seconds), with the hours counted from 00 to 23.
\<close>

definition clockHM :: "int \<Rightarrow> int \<Rightarrow> string" where
  "clockHM offset ms =
     (let s = (ms div 1000 + offset) mod 86400
      in padStart 2 (nat (s div 3600)) @ '':'' @ padStart 2 (nat (s mod 3600 div 60)))"

definition clockHMS :: "int \<Rightarrow> int \<Rightarrow> string" where
  "clockHMS offset ms =
     (let s = (ms div 1000 + offset) mod 86400
      in padStart 2 (nat (s div 3600)) @ '':'' @ padStart 2 (nat (s mod 3600 div 60))
         @ '':'' @ padStart 2 (nat (s mod 60)))"

text \<open>An instance of the collation parameter: the order of the code units.\<close>

definition codeUnitCompare :: "string \<Rightarrow> string \<Rightarrow> int" where
  "codeUnitCompare a b = (if jsStrLess a b then - 1 else if jsStrLess b a then 1 else 0)"

text \<open>
  A small static snapshot: two shuttle routes that share the short name S, one trip of
  three stops whose cumulative distances are 4, 2 and 8, and a second trip that calls at
  the middle stop.
\<close>

definition exampleStopTimes :: "StopTime list" where
  "exampleStopTimes =
     [\<lparr>st_trip_id = ''SUN_128750_1..N03R'', arrival_time = ''08:00:00'',
       departure_time = ''08:00:30'', st_stop_id = ''A'', stop_sequence = ''1'',
       shape_distance_traveled = Some ''4''\<rparr>,
      \<lparr>st_trip_id = ''SUN_128750_1..N03R'', arrival_time = ''08:05:00'',
       departure_time = ''08:05:30'', st_stop_id = ''B'', stop_sequence = ''2'',
       shape_distance_traveled = Some ''2''\<rparr>,
      \<lparr>st_trip_id = ''SUN_128750_1..N03R'', arrival_time = ''08:10:00'',
       departure_time = ''08:10:30'', st_stop_id = ''C'', stop_sequence = ''3'',
       shape_distance_traveled = Some ''8''\<rparr>]"

definition exampleStatic :: GTFSData where
  "exampleStatic =
     \<lparr>agencies = [\<lparr>agency_name = ''MTA'', agency_url = ''''\<rparr>],
      routes =
        [\<lparr>route_id = ''FS'', route_short_name = ''S'', route_long_name = ''Franklin Av Shuttle'',
          route_type = ''1'', route_color = None, route_text_color = None\<rparr>,
         \<lparr>route_id = ''GS'', route_short_name = ''S'', route_long_name = ''42 St Shuttle'',
          route_type = ''1'', route_color = Some ''6D6E71'', route_text_color = None\<rparr>],
      stops =
        [\<lparr>stop_id = ''A'', stop_code = None, stop_name = ''Alpha'', stop_lat = ''40.1'',
          stop_lon = ''-73.9'', parent_station = None, platform_code = None\<rparr>,
         \<lparr>stop_id = ''B'', stop_code = None, stop_name = ''Bravo'', stop_lat = ''40.2'',
          stop_lon = ''-73.9'', parent_station = None, platform_code = None\<rparr>,
         \<lparr>stop_id = ''C'', stop_code = None, stop_name = ''Charlie'', stop_lat = ''40.3'',
          stop_lon = ''-73.9'', parent_station = None, platform_code = None\<rparr>],
      trips =
        [\<lparr>trip_route_id = ''GS'', trip_service_id = ''SUN'', trip_id = ''SUN_128750_1..N03R'',
          trip_headsign = Some ''Times Sq'', direction_id = None, trip_shape_id = Some ''GS.N''\<rparr>,
         \<lparr>trip_route_id = ''FS'', trip_service_id = ''SUN'', trip_id = ''SUN_128800_1..N03R'',
          trip_headsign = None, direction_id = None, trip_shape_id = Some ''FS.N''\<rparr>],
      stopTimes =
        \<lparr>st_trip_id = ''SUN_128800_1..N03R'', arrival_time = ''08:20:00'',
          departure_time = ''08:20:00'', st_stop_id = ''B'', stop_sequence = ''1'',
          shape_distance_traveled = None\<rparr> # exampleStopTimes,
      calendar = [],
      shapes =
        [\<lparr>shape_id = ''GS.N'', shape_pt_lat = ''40.2'', shape_pt_lon = ''-73.9'',
          shape_pt_sequence = ''2'', shape_dist_traveled = None\<rparr>,
         \<lparr>shape_id = ''FS.N'', shape_pt_lat = ''40.5'', shape_pt_lon = ''-73.8'',
          shape_pt_sequence = ''1'', shape_dist_traveled = None\<rparr>,
         \<lparr>shape_id = ''GS.N'', shape_pt_lat = ''40.1'', shape_pt_lon = ''-73.9'',
          shape_pt_sequence = ''1'', shape_dist_traveled = None\<rparr>]\<rparr>"

text \<open>
  Live stop updates, with times in epoch seconds: the train reached the first stop at 10
  and left it at 20; in the second list it also reached the second stop at 90, 60
  seconds late, and is to leave it at 150.
\<close>

definition exampleDeparted :: "StopTimeUpdate list" where
  "exampleDeparted =
     [\<lparr>stopId = Some ''A'', stopSequence = None,
       arrival = Some \<lparr>time = Some 10, delay = None\<rparr>,
       departure = Some \<lparr>time = Some 20, delay = Some 0\<rparr>\<rparr>]"

definition exampleArrived :: "StopTimeUpdate list" where
  "exampleArrived =
     [\<lparr>stopId = Some ''A'', stopSequence = None,
       arrival = Some \<lparr>time = Some 10, delay = None\<rparr>,
       departure = Some \<lparr>time = Some 20, delay = Some 0\<rparr>\<rparr>,
      \<lparr>stopId = None, stopSequence = Some 2,
       arrival = Some \<lparr>time = Some 90, delay = Some 60\<rparr>,
       departure = Some \<lparr>time = Some 150, delay = Some 60\<rparr>\<rparr>]"

definition exampleLive :: "StopTimeUpdate list \<Rightarrow> GTFSRealtimeData" where
  "exampleLive stus =
     \<lparr>trip_updates =
        [\<lparr>trip = Some \<lparr>tripId = Some ''999''\<rparr>, stopTimeUpdate = None, tripDelay = None\<rparr>,
         \<lparr>trip = Some \<lparr>tripId = Some ''128750_1..N03R''\<rparr>, stopTimeUpdate = Some stus,
          tripDelay = None\<rparr>],
      last_updated = 0\<rparr>"

text \<open>
  Instances of the loaders: a snapshot with empty tables, a static loader that delivers
  the example snapshot, one that throws, a network whose every fetch is rejected (with
  the clock at 301002), and a decoder that throws.
\<close>

definition emptyStatic :: GTFSData where
  "emptyStatic =
     \<lparr>agencies = [], routes = [], stops = [], trips = [], stopTimes = [], calendar = [],
      shapes = []\<rparr>"

definition exampleLoader :: "nat \<Rightarrow> error + GTFSData" where
  "exampleLoader k = Inr exampleStatic"

definition failingLoader :: "nat \<Rightarrow> error + GTFSData" where
  "failingLoader k = Inl (LoadError ''Error parsing stops.txt'')"

definition rejectingNet :: "nat \<Rightarrow> nat list FetchResult \<times> int" where
  "rejectingNet k = (FetchRejected, 301002)"

definition failingDecode :: "nat list \<Rightarrow> error + FeedMessage" where
  "failingDecode buffer = Inl ParseError"

section \<open>The progress percentage\<close>

lemma progress_at_most_100:
  "calculateTripProgress tid g rt nowMs = Some p \<Longrightarrow>
     progress p = NaN \<or> (\<exists>z. progress p = Num (of_int z) \<and> z \<le> 100)"
proof -
  assume a: "calculateTripProgress tid g rt nowMs = Some p"
  then obtain raw where p: "progress p = mathRound (mathMin raw 100)"
    by (auto simp: calculateTripProgress_def Let_def split: if_splits option.splits)
  show ?thesis
  proof (cases raw)
    case NaN
    with p show ?thesis by simp
  next
    case (Num a)
    have "min a 100 + 1 / 2 < 101" by simp
    then have "floor (min a 100 + 1 / 2) < 101"
      by (simp add: floor_less_iff)
    with p Num show ?thesis by simp
  qed
qed

text \<open>
  C1 at a concrete snapshot. The trip has three stops with cumulative distances 4, 2 and
  8, and the live feed says the train has left the first stop. The current stop is the
  second one, the distance-based value is \<open>(2 - 4) / (8 - 4) * 100 = -50\<close>, and
  \<open>Math.round(Math.min(progress, 100))\<close> returns it as it is: only the upper bound is
  enforced.
\<close>

theorem calculateTripProgress_negative:
  "calculateTripProgress ''SUN_128750_1..N03R'' exampleStatic (exampleLive exampleDeparted) 100000
     = Some \<lparr>progress = Num (- 50), currentStop = Some ''Bravo'', nextStop = Some ''Charlie''\<rparr>"
  by code_simp

section \<open>The progress scan\<close>

lemma scanStops_arrival_first:
  "\<lbrakk>i \<le> k; k < length sts;
    \<not> departurePassed (stopUpdateAt sts stus k) now;
    arrivalPassed (stopUpdateAt sts stus k) now;
    \<forall>j. i \<le> j \<and> j < k \<longrightarrow>
        departurePassed (stopUpdateAt sts stus j) now
      \<or> \<not> arrivalPassed (stopUpdateAt sts stus j) now\<rbrakk>
   \<Longrightarrow> scanStops sts stus now i c = k"
proof (induction sts stus now i c rule: scanStops.induct)
  case (1 sts stus now i c)
  show ?case
  proof (cases "i = k")
    case True
    with "1.prems" show ?thesis
      by (simp add: scanStops.simps [of sts stus now k c])
  next
    case False
    with "1.prems" have lt: "i < k" "i < length sts" by auto
    from "1.prems" lt have here:
      "departurePassed (stopUpdateAt sts stus i) now
       \<or> \<not> arrivalPassed (stopUpdateAt sts stus i) now"
      by auto
    have rest: "\<forall>j. i + 1 \<le> j \<and> j < k \<longrightarrow>
        departurePassed (stopUpdateAt sts stus j) now
      \<or> \<not> arrivalPassed (stopUpdateAt sts stus j) now"
      using "1.prems"(5) by auto
    show ?thesis
    proof (cases "departurePassed (stopUpdateAt sts stus i) now")
      case True
      from "1.IH"(1) [OF lt(2) True _ "1.prems"(2,3,4) rest] lt
      have "scanStops sts stus now (i + 1) (min (i + 1) (length sts - 1)) = k" by simp
      with True lt show ?thesis
        by (simp add: scanStops.simps [of sts stus now i c])
    next
      case False
      with here have na: "\<not> arrivalPassed (stopUpdateAt sts stus i) now" by simp
      from "1.IH"(2) [OF lt(2) False na _ "1.prems"(2,3,4) rest] lt
      have "scanStops sts stus now (i + 1) c = k" by simp
      with False na lt show ?thesis
        by (simp add: scanStops.simps [of sts stus now i c])
    qed
  qed
qed

lemma scanStops_untouched:
  "\<forall>j. i \<le> j \<and> j < length sts \<longrightarrow>
        \<not> departurePassed (stopUpdateAt sts stus j) now
      \<and> \<not> arrivalPassed (stopUpdateAt sts stus j) now
   \<Longrightarrow> scanStops sts stus now i c = c"
proof (induction sts stus now i c rule: scanStops.induct)
  case (1 sts stus now i c)
  show ?case
  proof (cases "i < length sts")
    case False
    then show ?thesis by (simp add: scanStops.simps [of sts stus now i c])
  next
    case True
    with "1.prems" have nd: "\<not> departurePassed (stopUpdateAt sts stus i) now"
      and na: "\<not> arrivalPassed (stopUpdateAt sts stus i) now" by auto
    have "scanStops sts stus now (i + 1) c = c"
      using "1.IH"(2) [OF True nd na] "1.prems" by auto
    with True nd na show ?thesis
      by (simp add: scanStops.simps [of sts stus now i c])
  qed
qed

lemma scanStops_last_departure:
  "\<lbrakk>i \<le> k; k < length sts;
    departurePassed (stopUpdateAt sts stus k) now;
    \<forall>j. i \<le> j \<and> j < k \<longrightarrow>
        departurePassed (stopUpdateAt sts stus j) now
      \<or> \<not> arrivalPassed (stopUpdateAt sts stus j) now;
    \<forall>j. k < j \<and> j < length sts \<longrightarrow>
        \<not> departurePassed (stopUpdateAt sts stus j) now
      \<and> \<not> arrivalPassed (stopUpdateAt sts stus j) now\<rbrakk>
   \<Longrightarrow> scanStops sts stus now i c = min (k + 1) (length sts - 1)"
proof (induction sts stus now i c rule: scanStops.induct)
  case (1 sts stus now i c)
  show ?case
  proof (cases "i = k")
    case True
    have "scanStops sts stus now (k + 1) (min (k + 1) (length sts - 1))
            = min (k + 1) (length sts - 1)"
      using scanStops_untouched [of "k + 1" sts stus now] "1.prems"(5) by auto
    with True "1.prems" show ?thesis
      by (simp add: scanStops.simps [of sts stus now k c])
  next
    case False
    with "1.prems" have lt: "i < k" "i < length sts" by auto
    from "1.prems" lt have here:
      "departurePassed (stopUpdateAt sts stus i) now
       \<or> \<not> arrivalPassed (stopUpdateAt sts stus i) now"
      by auto
    have rest: "\<forall>j. i + 1 \<le> j \<and> j < k \<longrightarrow>
        departurePassed (stopUpdateAt sts stus j) now
      \<or> \<not> arrivalPassed (stopUpdateAt sts stus j) now"
      using "1.prems"(4) by auto
    show ?thesis
    proof (cases "departurePassed (stopUpdateAt sts stus i) now")
      case True
      from "1.IH"(1) [OF lt(2) True _ "1.prems"(2,3) rest "1.prems"(5)] lt
      have "scanStops sts stus now (i + 1) (min (i + 1) (length sts - 1))
              = min (k + 1) (length sts - 1)" by simp
      with True lt show ?thesis
        by (simp add: scanStops.simps [of sts stus now i c])
    next
      case False
      with here have na: "\<not> arrivalPassed (stopUpdateAt sts stus i) now" by simp
      from "1.IH"(2) [OF lt(2) False na _ "1.prems"(2,3) rest "1.prems"(5)] lt
      have "scanStops sts stus now (i + 1) c = min (k + 1) (length sts - 1)" by simp
      with False na lt show ?thesis
        by (simp add: scanStops.simps [of sts stus now i c])
    qed
  qed
qed

text \<open>
  C2, as the code has it. At a stop whose live departure time is in the past the index
  becomes \<open>min (i + 1) last\<close> and the scan goes on. At a stop whose live departure time
  is not in the past and whose live arrival time is in the past, the index becomes that
  stop and the scan ends: the departure test comes first, so it is departure that takes
  precedence at a stop where both times are in the past. At any other stop the index is
  kept and the scan goes on. Hence the scan ends at the first stop \<open>k\<close> that has been
  reached (arrival in the past) but not left; when there is no such stop, the result is
  \<open>min (k + 1) last\<close> for the last stop \<open>k\<close> that has been left, and 0 when no stop has
  been left. A time counts as being in the past when it is present, not 0, and smaller
  than \<open>now\<close>.
\<close>

theorem scanStops_departure_then_arrival:
  "(i < length sts \<and> departurePassed (stopUpdateAt sts stus i) now \<longrightarrow>
      scanStops sts stus now i c
        = scanStops sts stus now (i + 1) (min (i + 1) (length sts - 1)))
 \<and> (i < length sts \<and> \<not> departurePassed (stopUpdateAt sts stus i) now
      \<and> arrivalPassed (stopUpdateAt sts stus i) now \<longrightarrow>
      scanStops sts stus now i c = i)
 \<and> (i < length sts \<and> \<not> departurePassed (stopUpdateAt sts stus i) now
      \<and> \<not> arrivalPassed (stopUpdateAt sts stus i) now \<longrightarrow>
      scanStops sts stus now i c = scanStops sts stus now (i + 1) c)
 \<and> (k < length sts \<and> \<not> departurePassed (stopUpdateAt sts stus k) now
      \<and> arrivalPassed (stopUpdateAt sts stus k) now
      \<and> (\<forall>j < k. departurePassed (stopUpdateAt sts stus j) now
                  \<or> \<not> arrivalPassed (stopUpdateAt sts stus j) now) \<longrightarrow>
      scanStops sts stus now 0 0 = k)
 \<and> (k < length sts \<and> departurePassed (stopUpdateAt sts stus k) now
      \<and> (\<forall>j < k. departurePassed (stopUpdateAt sts stus j) now
                  \<or> \<not> arrivalPassed (stopUpdateAt sts stus j) now)
      \<and> (\<forall>j. k < j \<and> j < length sts \<longrightarrow>
                \<not> departurePassed (stopUpdateAt sts stus j) now
              \<and> \<not> arrivalPassed (stopUpdateAt sts stus j) now) \<longrightarrow>
      scanStops sts stus now 0 0 = min (k + 1) (length sts - 1))
 \<and> ((\<forall>j < length sts. \<not> departurePassed (stopUpdateAt sts stus j) now
                       \<and> \<not> arrivalPassed (stopUpdateAt sts stus j) now) \<longrightarrow>
      scanStops sts stus now 0 0 = 0)
 \<and> (eventPassed ev now
      \<longleftrightarrow> (\<exists>e t. ev = Some e \<and> time e = Some t \<and> t \<noteq> 0 \<and> t < now))"
proof (intro conjI impI)
  assume "i < length sts \<and> departurePassed (stopUpdateAt sts stus i) now"
  then show "scanStops sts stus now i c
        = scanStops sts stus now (i + 1) (min (i + 1) (length sts - 1))"
    by (simp add: scanStops.simps [of sts stus now i c])
next
  assume "i < length sts \<and> \<not> departurePassed (stopUpdateAt sts stus i) now
      \<and> arrivalPassed (stopUpdateAt sts stus i) now"
  then show "scanStops sts stus now i c = i"
    by (simp add: scanStops.simps [of sts stus now i c])
next
  assume "i < length sts \<and> \<not> departurePassed (stopUpdateAt sts stus i) now
      \<and> \<not> arrivalPassed (stopUpdateAt sts stus i) now"
  then show "scanStops sts stus now i c = scanStops sts stus now (i + 1) c"
    by (simp add: scanStops.simps [of sts stus now i c])
next
  assume "k < length sts \<and> \<not> departurePassed (stopUpdateAt sts stus k) now
      \<and> arrivalPassed (stopUpdateAt sts stus k) now
      \<and> (\<forall>j < k. departurePassed (stopUpdateAt sts stus j) now
                  \<or> \<not> arrivalPassed (stopUpdateAt sts stus j) now)"
  then show "scanStops sts stus now 0 0 = k"
    using scanStops_arrival_first [of 0 k sts stus now 0] by simp
next
  assume "k < length sts \<and> departurePassed (stopUpdateAt sts stus k) now
      \<and> (\<forall>j < k. departurePassed (stopUpdateAt sts stus j) now
                  \<or> \<not> arrivalPassed (stopUpdateAt sts stus j) now)
      \<and> (\<forall>j. k < j \<and> j < length sts \<longrightarrow>
                \<not> departurePassed (stopUpdateAt sts stus j) now
              \<and> \<not> arrivalPassed (stopUpdateAt sts stus j) now)"
  then show "scanStops sts stus now 0 0 = min (k + 1) (length sts - 1)"
    using scanStops_last_departure [of 0 k sts stus now 0] by simp
next
  assume "\<forall>j < length sts. \<not> departurePassed (stopUpdateAt sts stus j) now
                       \<and> \<not> arrivalPassed (stopUpdateAt sts stus j) now"
  then show "scanStops sts stus now 0 0 = 0"
    using scanStops_untouched [of 0 sts stus now 0] by simp
next
  show "eventPassed ev now
      \<longleftrightarrow> (\<exists>e t. ev = Some e \<and> time e = Some t \<and> t \<noteq> 0 \<and> t < now)"
    by (auto simp: eventPassed_def nonZero_def split: option.splits if_splits)
qed

text \<open>
  The specification gives precedence to arrival. In the example the train has both
  reached (time 10) and left (time 20) the first stop before \<open>now = 100\<close>: the arrival
  time of stop 0 is in the past, yet the scan does not stop there with index 0; it moves
  on and ends with index 1.
\<close>

theorem scanStops_precedence_counterexample:
  "arrivalPassed (stopUpdateAt exampleStopTimes exampleDeparted 0) 100
 \<and> departurePassed (stopUpdateAt exampleStopTimes exampleDeparted 0) 100
 \<and> scanStops exampleStopTimes exampleDeparted 100 0 0 = 1"
  by code_simp

theorem scanStops_departure_then_arrival_witness:
  "scanStops exampleStopTimes exampleArrived 100 0 0 = 1
 \<and> scanStops exampleStopTimes exampleArrived 100 0 7
      = scanStops exampleStopTimes exampleArrived 100 1 1
 \<and> scanStops exampleStopTimes exampleArrived 100 1 5 = 1
 \<and> scanStops exampleStopTimes exampleArrived 100 2 5
      = scanStops exampleStopTimes exampleArrived 100 3 5
 \<and> scanStops exampleStopTimes exampleDeparted 100 0 0 = 1
 \<and> scanStops exampleStopTimes [] 100 0 0 = 0"
proof -
  have len: "length exampleStopTimes = 3"
    by (simp add: exampleStopTimes_def)
  have d0: "departurePassed (stopUpdateAt exampleStopTimes exampleArrived 0) 100"
    by code_simp
  have d1: "\<not> departurePassed (stopUpdateAt exampleStopTimes exampleArrived 1) 100"
    by code_simp
  have a1: "arrivalPassed (stopUpdateAt exampleStopTimes exampleArrived 1) 100"
    by code_simp
  have d2: "\<not> departurePassed (stopUpdateAt exampleStopTimes exampleArrived 2) 100"
    by code_simp
  have a2: "\<not> arrivalPassed (stopUpdateAt exampleStopTimes exampleArrived 2) 100"
    by code_simp
  have e0: "departurePassed (stopUpdateAt exampleStopTimes exampleDeparted 0) 100"
    by code_simp
  have e1: "\<not> departurePassed (stopUpdateAt exampleStopTimes exampleDeparted 1) 100"
           "\<not> arrivalPassed (stopUpdateAt exampleStopTimes exampleDeparted 1) 100"
    by code_simp+
  have e2: "\<not> departurePassed (stopUpdateAt exampleStopTimes exampleDeparted 2) 100"
           "\<not> arrivalPassed (stopUpdateAt exampleStopTimes exampleDeparted 2) 100"
    by code_simp+
  have none: "\<And>j. \<not> departurePassed (stopUpdateAt exampleStopTimes [] j) 100
                \<and> \<not> arrivalPassed (stopUpdateAt exampleStopTimes [] j) 100"
    by (simp add: departurePassed_def arrivalPassed_def stopUpdateAt_def eventPassed_def)
  have below1: "\<And>j::nat. j < 1 \<Longrightarrow> j = 0" by simp
  have above0: "\<And>j::nat. 0 < j \<Longrightarrow> j < 3 \<Longrightarrow> j = 1 \<or> j = 2" by arith
  have c1: "scanStops exampleStopTimes exampleArrived 100 0 0 = 1"
    using scanStops_departure_then_arrival
            [of 0 exampleStopTimes exampleArrived 100 0 1 None, THEN conjunct2, THEN conjunct2,
             THEN conjunct2, THEN conjunct1]
          len d0 d1 a1 below1 by auto
  have c2: "scanStops exampleStopTimes exampleArrived 100 0 7
              = scanStops exampleStopTimes exampleArrived 100 1 1"
    using scanStops_departure_then_arrival
            [of 0 exampleStopTimes exampleArrived 100 7 1 None, THEN conjunct1]
          len d0 by simp
  have c3: "scanStops exampleStopTimes exampleArrived 100 1 5 = 1"
    using scanStops_departure_then_arrival
            [of 1 exampleStopTimes exampleArrived 100 5 1 None, THEN conjunct2, THEN conjunct1]
          len d1 a1 by simp
  have c4: "scanStops exampleStopTimes exampleArrived 100 2 5
              = scanStops exampleStopTimes exampleArrived 100 3 5"
    using scanStops_departure_then_arrival
            [of 2 exampleStopTimes exampleArrived 100 5 1 None, THEN conjunct2, THEN conjunct2,
             THEN conjunct1]
          len d2 a2 by simp
  have c5: "scanStops exampleStopTimes exampleDeparted 100 0 0 = 1"
    using scanStops_departure_then_arrival
            [of 0 exampleStopTimes exampleDeparted 100 0 0 None, THEN conjunct2, THEN conjunct2,
             THEN conjunct2, THEN conjunct2, THEN conjunct1]
          len e0 e1 e2 above0 by auto
  have c6: "scanStops exampleStopTimes [] 100 0 0 = 0"
    using scanStops_departure_then_arrival
            [of 0 exampleStopTimes "[]" 100 0 0 None, THEN conjunct2, THEN conjunct2,
             THEN conjunct2, THEN conjunct2, THEN conjunct2, THEN conjunct1]
          none by blast
  from c1 c2 c3 c4 c5 c6 show ?thesis by blast
qed

section \<open>Arrival estimates from a delay\<close>

lemma split_append_sep:
  "sep \<notin> set a \<Longrightarrow> split sep (a @ sep # r) = a # split sep r"
  by (induction a) (auto split: list.splits)

lemma split_no_sep:
  "sep \<notin> set a \<Longrightarrow> split sep a = [a]"
  by (induction a) (auto split: list.splits)

lemma digit_not_white: "isDigit c \<Longrightarrow> \<not> isWhite c"
  by (auto simp: isDigit_def isWhite_def)

lemma digit_not_colon: "isDigit c \<Longrightarrow> c \<noteq> CHR '':''"
  by (auto simp: isDigit_def)

lemma digit_not_sign: "isDigit c \<Longrightarrow> c \<noteq> CHR ''-'' \<and> c \<noteq> CHR ''+''"
  by (auto simp: isDigit_def)

lemma digits_no_colon: "list_all isDigit ds \<Longrightarrow> CHR '':'' \<notin> set ds"
  using digit_not_colon by (auto simp: list_all_iff)

lemma trim_digits:
  assumes "ds \<noteq> []" and "list_all isDigit ds"
  shows "trim ds = ds"
proof -
  from assms have "\<not> isWhite (hd ds)" and "\<not> isWhite (last ds)"
    by (auto simp: list_all_iff digit_not_white)
  with assms(1) have "dropWhile isWhite ds = ds" and "dropWhile isWhite (rev ds) = rev ds"
    by (simp_all add: dropWhile_eq_self_iff hd_rev)
  then show ?thesis by (simp add: trim_def)
qed

lemma decimalPrefix_digits:
  assumes "ds \<noteq> []" and "list_all isDigit ds"
  shows "decimalPrefix ds = Some (of_nat (digitsVal ds), [])"
proof -
  from assms have hd: "hd ds \<noteq> CHR ''-''" "hd ds \<noteq> CHR ''+''"
    by (auto simp: list_all_iff digit_not_sign)
  from assms(2) have tw: "takeWhile isDigit ds = ds" and dw: "dropWhile isDigit ds = []"
    by (auto simp: list_all_iff)
  show ?thesis
    using assms(1) hd by (simp add: decimalPrefix_def exponentPart_def Let_def tw dw)
qed

lemma Number_digits:
  assumes "ds \<noteq> []" and "list_all isDigit ds"
  shows "Number ds = Num (of_nat (digitsVal ds))"
  using assms by (simp add: Number_def trim_digits decimalPrefix_digits)

lemma dateToLocaleTime_integral:
  "\<bar>z\<bar> \<le> 8640000000000000 \<Longrightarrow> dateToLocaleTime hostClock (Num (of_int z)) = hostClock z"
proof -
  assume a: "\<bar>z\<bar> \<le> 8640000000000000"
  have "\<bar>(of_int z :: rat)\<bar> = of_int \<bar>z\<bar>"
    by (simp only: of_int_abs)
  also have "\<dots> \<le> of_int 8640000000000000"
    using a by (simp only: of_int_le_iff)
  finally have "\<not> \<bar>(of_int z :: rat)\<bar> > 8640000000000000" by simp
  then show ?thesis
    by (simp add: dateToLocaleTime_def)
qed

lemma scheduledMs_digits:
  assumes "hh \<noteq> []" "list_all isDigit hh" "mm \<noteq> []" "list_all isDigit mm"
          "ss \<noteq> []" "list_all isDigit ss"
  shows "scheduledMs (hh @ '':'' @ mm @ '':'' @ ss)
           = Num (of_int ((int (digitsVal hh) * 3600 + int (digitsVal mm) * 60
                           + int (digitsVal ss)) * 1000))"
proof -
  have "split CHR '':'' (hh @ '':'' @ mm @ '':'' @ ss) = [hh, mm, ss]"
    using assms by (simp add: split_append_sep split_no_sep digits_no_colon)
  then show ?thesis
    using assms by (simp add: scheduledMs_def Number_digits)
qed

text \<open>
  C3, as the code has it. For a scheduled time made of three runs of digits separated by
  colons, and an update whose arrival has no absolute time (absent or 0) and a delay
  that is not 0, the result is real-time, its delay text is \<open>formatDelay\<close> of the delay,
  and its time is the rendering, as hour and minute, of the date whose epoch
  milliseconds are 1000 times the sum of the scheduled seconds since midnight and the
  delay. The statement holds for every formatter \<open>render\<close>; the zone in which the text is
  produced is no part of it.
\<close>

theorem getRealtimeArrivalTime_delay_only:
  assumes "hh \<noteq> []" and "list_all isDigit hh"
      and "mm \<noteq> []" and "list_all isDigit mm"
      and "ss \<noteq> []" and "list_all isDigit ss"
      and "arrival stu = Some arr"
      and "time arr = None \<or> time arr = Some 0"
      and "delay arr = Some d" and "d \<noteq> 0"
      and "\<bar>(int (digitsVal hh) * 3600 + int (digitsVal mm) * 60 + int (digitsVal ss) + d) * 1000\<bar>
             \<le> 8640000000000000"
  shows "getRealtimeArrivalTime render (hh @ '':'' @ mm @ '':'' @ ss) (Some stu)
           = \<lparr>arr_time =
                render ((int (digitsVal hh) * 3600 + int (digitsVal mm) * 60
                            + int (digitsVal ss) + d) * 1000),
              arr_delay = Some (formatDelay d),
              isRealtime = True\<rparr>"
proof -
  let ?sec = "int (digitsVal hh) * 3600 + int (digitsVal mm) * 60 + int (digitsVal ss)"
  have nt: "nonZero (time arr) = None"
    using assms(8) by (auto simp: nonZero_def)
  have nd: "nonZero (delay arr) = Some d"
    using assms(9,10) by (simp add: nonZero_def)
  have ms: "jsAdd (scheduledMs (hh @ '':'' @ mm @ '':'' @ ss)) (Num (of_int (d * 1000)))
              = Num (of_int ((?sec + d) * 1000))"
    using scheduledMs_digits [OF assms(1-6)] by (simp add: algebra_simps)
  have "dateToLocaleTime render (Num (of_int ((?sec + d) * 1000)))
               = render ((?sec + d) * 1000)"
    using assms(11) by (rule dateToLocaleTime_integral)
  with nt nd ms assms(7) show ?thesis
    by (simp add: getRealtimeArrivalTime_def Let_def)
qed

theorem getRealtimeArrivalTime_delay_only_witness:
  "getRealtimeArrivalTime (clockHM 0) ''08:00:30''
     (Some \<lparr>stopId = Some ''A'', stopSequence = None,
            arrival = Some \<lparr>time = None, delay = Some 60\<rparr>, departure = None\<rparr>)
     = \<lparr>arr_time = ''08:01'', arr_delay = Some ''1m 0s late'', isRealtime = True\<rparr>"
proof -
  have c: "clockHM 0 28890000 = ''08:01''" by code_simp
  have f: "formatDelay 60 = ''1m 0s late''" by code_simp
  have v: "digitsVal ''08'' = 8" "digitsVal ''00'' = 0" "digitsVal ''30'' = 30"
    by (simp_all add: digitsVal_def digitVal_def)
  show ?thesis
    using getRealtimeArrivalTime_delay_only
            [of "''08''" "''00''" "''30''"
                "\<lparr>stopId = Some ''A'', stopSequence = None,
                  arrival = Some \<lparr>time = None, delay = Some 60\<rparr>, departure = None\<rparr>"
                "\<lparr>time = None, delay = Some 60\<rparr>" 60 "clockHM 0"]
    by (simp add: isDigit_def c f v)
qed

text \<open>
  The specification's sentence covers every delay offset. A delay of 0 is one, but the
  test \<open>if (stopTimeUpdate.arrival.delay)\<close> takes it for absent: the result is then the
  scheduled text as it is, with \<open>isRealtime = false\<close>.
\<close>

theorem getRealtimeArrivalTime_counterexample:
  "getRealtimeArrivalTime (clockHM 0) ''08:00:30''
     (Some \<lparr>stopId = Some ''A'', stopSequence = None,
            arrival = Some \<lparr>time = None, delay = Some 0\<rparr>, departure = None\<rparr>)
     = \<lparr>arr_time = ''08:00:30'', arr_delay = None, isRealtime = False\<rparr>"
  by code_simp

text \<open>
  The formatting call of this branch passes no time zone, unlike
  \<open>unixTimestampToEasternTime\<close>: for the scheduled time 08:00:30 and a delay of 60 seconds
  a host in UTC prints 08:01 and a host five hours west of UTC prints 03:01.
\<close>

lemma getRealtimeArrivalTime_zone_of_host:
  "arr_time (getRealtimeArrivalTime (clockHM 0) ''08:00:30''
     (Some \<lparr>stopId = Some ''A'', stopSequence = None,
            arrival = Some \<lparr>time = None, delay = Some 60\<rparr>, departure = None\<rparr>))
     = ''08:01''
 \<and> arr_time (getRealtimeArrivalTime (clockHM (- 18000)) ''08:00:30''
     (Some \<lparr>stopId = Some ''A'', stopSequence = None,
            arrival = Some \<lparr>time = None, delay = Some 60\<rparr>, departure = None\<rparr>))
     = ''03:01''"
  by code_simp

section \<open>Properties of trip matching\<close>

lemma endsWith_iff_suffix: "endsWith s t \<longleftrightarrow> suffix t s"
proof
  assume "endsWith s t"
  then have le: "length t \<le> length s" and d: "drop (length s - length t) s = t"
    by (auto simp: endsWith_def Let_def split: if_splits)
  have "s = take (length s - length t) s @ drop (length s - length t) s"
    by simp
  with d show "suffix t s"
    unfolding suffix_def by metis
next
  assume "suffix t s"
  then obtain p where "s = p @ t"
    unfolding suffix_def by blast
  then show "endsWith s t"
    by (simp add: endsWith_def Let_def)
qed

lemma tripIdMatches_iff:
  "tripIdMatches sid u \<longleftrightarrow> (\<exists>tid. tripIdOf u = Some tid \<and> tid \<noteq> [] \<and> suffix tid sid)"
  by (auto simp: tripIdMatches_def endsWith_iff_suffix split: option.splits)

lemma find_Some_first:
  "find P xs = Some x \<longleftrightarrow> (\<exists>i < length xs. xs ! i = x \<and> P x \<and> (\<forall>j < i. \<not> P (xs ! j)))"
  by (auto simp: find_Some_iff)

text \<open>
  C4. Trip matching returns the first update, in feed order, whose trip identifier is a
  non-empty suffix of the static trip id (equality included), and nothing when the feed
  has no such update. The two examples of the specification are instances: the live id
  \<open>128750_1..N03R\<close> is matched by the long static id, and the live id \<open>999\<close> is not
  matched by the static id \<open>128750_1..N03R\<close>.
\<close>

theorem findTripUpdate_first_suffix:
  "(findTripUpdate sid rt = Some u \<longleftrightarrow>
      (\<exists>i < length (trip_updates rt).
          trip_updates rt ! i = u
        \<and> (\<exists>tid. tripIdOf u = Some tid \<and> tid \<noteq> [] \<and> suffix tid sid)
        \<and> (\<forall>j < i. \<not> (\<exists>tid. tripIdOf (trip_updates rt ! j) = Some tid
                               \<and> tid \<noteq> [] \<and> suffix tid sid))))
 \<and> (findTripUpdate sid rt = None \<longleftrightarrow>
      \<not> (\<exists>u' \<in> set (trip_updates rt).
            \<exists>tid. tripIdOf u' = Some tid \<and> tid \<noteq> [] \<and> suffix tid sid))
 \<and> (tripIdOf u = Some sid \<and> sid \<noteq> [] \<longrightarrow> tripIdMatches sid u)
 \<and> (tripIdOf u = Some ''128750_1..N03R''
      \<longrightarrow> findTripUpdate ''ASP25GEN-1038-Sunday-00_128750_1..N03R''
            \<lparr>trip_updates = [u], last_updated = t\<rparr> = Some u)
 \<and> (tripIdOf u = Some ''999''
      \<longrightarrow> findTripUpdate ''128750_1..N03R''
            \<lparr>trip_updates = [u], last_updated = t\<rparr> = None)"
proof (intro conjI)
  show "findTripUpdate sid rt = Some u \<longleftrightarrow>
      (\<exists>i < length (trip_updates rt).
          trip_updates rt ! i = u
        \<and> (\<exists>tid. tripIdOf u = Some tid \<and> tid \<noteq> [] \<and> suffix tid sid)
        \<and> (\<forall>j < i. \<not> (\<exists>tid. tripIdOf (trip_updates rt ! j) = Some tid
                               \<and> tid \<noteq> [] \<and> suffix tid sid)))"
    unfolding findTripUpdate_def find_Some_first tripIdMatches_iff ..
  show "findTripUpdate sid rt = None \<longleftrightarrow>
      \<not> (\<exists>u' \<in> set (trip_updates rt).
            \<exists>tid. tripIdOf u' = Some tid \<and> tid \<noteq> [] \<and> suffix tid sid)"
    unfolding findTripUpdate_def find_None_iff tripIdMatches_iff by blast
  show "tripIdOf u = Some sid \<and> sid \<noteq> [] \<longrightarrow> tripIdMatches sid u"
    by (simp add: tripIdMatches_iff)
  show "tripIdOf u = Some ''128750_1..N03R''
      \<longrightarrow> findTripUpdate ''ASP25GEN-1038-Sunday-00_128750_1..N03R''
            \<lparr>trip_updates = [u], last_updated = t\<rparr> = Some u"
    by (simp add: findTripUpdate_def tripIdMatches_def endsWith_def)
  show "tripIdOf u = Some ''999''
      \<longrightarrow> findTripUpdate ''128750_1..N03R''
            \<lparr>trip_updates = [u], last_updated = t\<rparr> = None"
    by (simp add: findTripUpdate_def tripIdMatches_def endsWith_def)
qed

theorem findTripUpdate_first_suffix_witness:
  "findTripUpdate ''ASP25GEN-1038-Sunday-00_128750_1..N03R''
     \<lparr>trip_updates =
        [\<lparr>trip = Some \<lparr>tripId = Some ''999''\<rparr>, stopTimeUpdate = None, tripDelay = None\<rparr>,
         \<lparr>trip = Some \<lparr>tripId = Some ''128750_1..N03R''\<rparr>, stopTimeUpdate = None,
          tripDelay = None\<rparr>,
         \<lparr>trip = Some \<lparr>tripId = Some ''N03R''\<rparr>, stopTimeUpdate = None, tripDelay = None\<rparr>],
      last_updated = 0\<rparr>
   = Some \<lparr>trip = Some \<lparr>tripId = Some ''128750_1..N03R''\<rparr>, stopTimeUpdate = None,
           tripDelay = None\<rparr>
 \<and> (\<exists>tid. tripIdOf \<lparr>trip = Some \<lparr>tripId = Some ''128750_1..N03R''\<rparr>,
                     stopTimeUpdate = None, tripDelay = None\<rparr> = Some tid
         \<and> tid \<noteq> [] \<and> suffix tid ''ASP25GEN-1038-Sunday-00_128750_1..N03R'')"
  (is "findTripUpdate ?sid ?rt = Some ?u \<and> ?Q")
proof -
  have e: "findTripUpdate ?sid ?rt = Some ?u"
    by (simp add: findTripUpdate_def tripIdMatches_def tripIdOf_def endsWith_def)
  from findTripUpdate_first_suffix [of ?sid ?rt ?u, THEN conjunct1] e
  have "?Q" by blast
  with e show ?thesis by blast
qed

section \<open>The refresh cache\<close>

lemma fetchGTFSRealtimeData_resolves:
  "\<exists>r. fetchGTFSRealtimeData response decode now = Inr r"
  by (cases "fetchAttempt response decode now") (simp_all add: fetchGTFSRealtimeData_def)

text \<open>
  C5, as the code has it. With a snapshot cached and \<open>now - lastLoadTime <= ttl\<close> the
  accessor returns the cached snapshot and changes nothing (no load, same snapshot, same
  load time). Otherwise (nothing cached yet, or \<open>now - lastLoadTime > ttl\<close>) the loader is
  invoked exactly once; when it resolves, the snapshot is replaced, the load time becomes
  \<open>now\<close> and the new snapshot is returned; when the static loader throws, the error
  propagates and the cache fields stay as they were. The live loader always resolves.
  The static ttl is 300000 ms and the live ttl is 30000 ms.
\<close>

theorem ensure_cache_contract:
  "(gtfsData svc = Some d \<and> now - lastDataLoad svc \<le> CACHE_DURATION \<longrightarrow>
      ensureGTFSData load now (svc, w) = (Inr d, svc, w))
 \<and> ((gtfsData svc = None \<or> now - lastDataLoad svc > CACHE_DURATION)
      \<and> load (staticLoads w) = Inr d' \<longrightarrow>
      ensureGTFSData load now (svc, w)
        = (Inr d', svc\<lparr>gtfsData := Some d', lastDataLoad := now\<rparr>,
           w\<lparr>staticLoads := staticLoads w + 1\<rparr>))
 \<and> ((gtfsData svc = None \<or> now - lastDataLoad svc > CACHE_DURATION)
      \<and> load (staticLoads w) = Inl e \<longrightarrow>
      ensureGTFSData load now (svc, w)
        = (Inl e, svc, w\<lparr>staticLoads := staticLoads w + 1\<rparr>))
 \<and> (realtimeData svc = Some r \<and> now - lastRealtimeUpdate svc \<le> REALTIME_CACHE_DURATION \<longrightarrow>
      ensureRealtimeData net decode now (svc, w) = (Inr r, svc, w))
 \<and> ((realtimeData svc = None \<or> now - lastRealtimeUpdate svc > REALTIME_CACHE_DURATION) \<longrightarrow>
      (\<exists>r'. fetchGTFSRealtimeData (fst (net (liveLoads w))) decode (snd (net (liveLoads w)))
               = Inr r'
          \<and> ensureRealtimeData net decode now (svc, w)
               = (Inr r', svc\<lparr>realtimeData := Some r', lastRealtimeUpdate := now\<rparr>,
                  w\<lparr>liveLoads := liveLoads w + 1\<rparr>)))
 \<and> CACHE_DURATION = 300000 \<and> REALTIME_CACHE_DURATION = 30000"
proof (intro conjI)
  show "gtfsData svc = Some d \<and> now - lastDataLoad svc \<le> CACHE_DURATION \<longrightarrow>
      ensureGTFSData load now (svc, w) = (Inr d, svc, w)"
    by (simp add: ensureGTFSData_def Let_def)
  show "(gtfsData svc = None \<or> now - lastDataLoad svc > CACHE_DURATION)
      \<and> load (staticLoads w) = Inr d' \<longrightarrow>
      ensureGTFSData load now (svc, w)
        = (Inr d', svc\<lparr>gtfsData := Some d', lastDataLoad := now\<rparr>,
           w\<lparr>staticLoads := staticLoads w + 1\<rparr>)"
    by (auto simp: ensureGTFSData_def Let_def split: option.splits)
  show "(gtfsData svc = None \<or> now - lastDataLoad svc > CACHE_DURATION)
      \<and> load (staticLoads w) = Inl e \<longrightarrow>
      ensureGTFSData load now (svc, w)
        = (Inl e, svc, w\<lparr>staticLoads := staticLoads w + 1\<rparr>)"
    by (auto simp: ensureGTFSData_def Let_def split: option.splits)
  show "realtimeData svc = Some r \<and> now - lastRealtimeUpdate svc \<le> REALTIME_CACHE_DURATION \<longrightarrow>
      ensureRealtimeData net decode now (svc, w) = (Inr r, svc, w)"
    by (simp add: ensureRealtimeData_def Let_def)
  show "(realtimeData svc = None \<or> now - lastRealtimeUpdate svc > REALTIME_CACHE_DURATION) \<longrightarrow>
      (\<exists>r'. fetchGTFSRealtimeData (fst (net (liveLoads w))) decode (snd (net (liveLoads w)))
               = Inr r'
          \<and> ensureRealtimeData net decode now (svc, w)
               = (Inr r', svc\<lparr>realtimeData := Some r', lastRealtimeUpdate := now\<rparr>,
                  w\<lparr>liveLoads := liveLoads w + 1\<rparr>))"
  proof
    assume a: "realtimeData svc = None \<or> now - lastRealtimeUpdate svc > REALTIME_CACHE_DURATION"
    obtain r' where r': "fetchGTFSRealtimeData (fst (net (liveLoads w))) decode
                           (snd (net (liveLoads w))) = Inr r'"
      using fetchGTFSRealtimeData_resolves by blast
    with a have "ensureRealtimeData net decode now (svc, w)
               = (Inr r', svc\<lparr>realtimeData := Some r', lastRealtimeUpdate := now\<rparr>,
                  w\<lparr>liveLoads := liveLoads w + 1\<rparr>)"
      by (auto simp: ensureRealtimeData_def Let_def split: option.splits)
    with r' show "\<exists>r'. fetchGTFSRealtimeData (fst (net (liveLoads w))) decode (snd (net (liveLoads w)))
               = Inr r'
          \<and> ensureRealtimeData net decode now (svc, w)
               = (Inr r', svc\<lparr>realtimeData := Some r', lastRealtimeUpdate := now\<rparr>,
                  w\<lparr>liveLoads := liveLoads w + 1\<rparr>)"
      by blast
  qed
  show "CACHE_DURATION = 300000" by (simp add: CACHE_DURATION_def)
  show "REALTIME_CACHE_DURATION = 30000" by (simp add: REALTIME_CACHE_DURATION_def)
qed

theorem ensure_cache_contract_witness:
  "ensureGTFSData exampleLoader 301001
      (\<lparr>gtfsData = Some emptyStatic,
        realtimeData = Some \<lparr>trip_updates = [], last_updated = 7\<rparr>,
        lastDataLoad = 1000, lastRealtimeUpdate = 271001\<rparr>,
       \<lparr>staticLoads = 1, liveLoads = 4\<rparr>)
    = (Inr exampleStatic,
       \<lparr>gtfsData = Some exampleStatic,
        realtimeData = Some \<lparr>trip_updates = [], last_updated = 7\<rparr>,
        lastDataLoad = 301001, lastRealtimeUpdate = 271001\<rparr>,
       \<lparr>staticLoads = 2, liveLoads = 4\<rparr>)
 \<and> ensureRealtimeData rejectingNet failingDecode 301001
      (\<lparr>gtfsData = Some emptyStatic,
        realtimeData = Some \<lparr>trip_updates = [], last_updated = 7\<rparr>,
        lastDataLoad = 1000, lastRealtimeUpdate = 271001\<rparr>,
       \<lparr>staticLoads = 1, liveLoads = 4\<rparr>)
    = (Inr \<lparr>trip_updates = [], last_updated = 7\<rparr>,
       \<lparr>gtfsData = Some emptyStatic,
        realtimeData = Some \<lparr>trip_updates = [], last_updated = 7\<rparr>,
        lastDataLoad = 1000, lastRealtimeUpdate = 271001\<rparr>,
       \<lparr>staticLoads = 1, liveLoads = 4\<rparr>)
 \<and> ensureGTFSData exampleLoader 301000
      (\<lparr>gtfsData = Some emptyStatic,
        realtimeData = Some \<lparr>trip_updates = [], last_updated = 7\<rparr>,
        lastDataLoad = 1000, lastRealtimeUpdate = 271001\<rparr>,
       \<lparr>staticLoads = 1, liveLoads = 4\<rparr>)
    = (Inr emptyStatic,
       \<lparr>gtfsData = Some emptyStatic,
        realtimeData = Some \<lparr>trip_updates = [], last_updated = 7\<rparr>,
        lastDataLoad = 1000, lastRealtimeUpdate = 271001\<rparr>,
       \<lparr>staticLoads = 1, liveLoads = 4\<rparr>)
 \<and> ensureGTFSData failingLoader 301001
      (\<lparr>gtfsData = Some emptyStatic,
        realtimeData = Some \<lparr>trip_updates = [], last_updated = 7\<rparr>,
        lastDataLoad = 1000, lastRealtimeUpdate = 271001\<rparr>,
       \<lparr>staticLoads = 1, liveLoads = 4\<rparr>)
    = (Inl (LoadError ''Error parsing stops.txt''),
       \<lparr>gtfsData = Some emptyStatic,
        realtimeData = Some \<lparr>trip_updates = [], last_updated = 7\<rparr>,
        lastDataLoad = 1000, lastRealtimeUpdate = 271001\<rparr>,
       \<lparr>staticLoads = 2, liveLoads = 4\<rparr>)
 \<and> ensureRealtimeData rejectingNet failingDecode 301002
      (\<lparr>gtfsData = Some emptyStatic,
        realtimeData = Some \<lparr>trip_updates = [], last_updated = 7\<rparr>,
        lastDataLoad = 1000, lastRealtimeUpdate = 271001\<rparr>,
       \<lparr>staticLoads = 1, liveLoads = 4\<rparr>)
    = (Inr \<lparr>trip_updates = [], last_updated = 301002\<rparr>,
       \<lparr>gtfsData = Some emptyStatic,
        realtimeData = Some \<lparr>trip_updates = [], last_updated = 301002\<rparr>,
        lastDataLoad = 1000, lastRealtimeUpdate = 301002\<rparr>,
       \<lparr>staticLoads = 1, liveLoads = 5\<rparr>)"
  (is "ensureGTFSData _ _ (?svc, ?w) = _ \<and> _")
proof -
  have f: "fetchGTFSRealtimeData (fst (rejectingNet 4)) failingDecode (snd (rejectingNet 4))
             = Inr \<lparr>trip_updates = [], last_updated = 301002\<rparr>"
    by (simp add: rejectingNet_def fetchGTFSRealtimeData_def fetchAttempt_def)
  have g: "gtfsData ?svc = Some emptyStatic" "lastDataLoad ?svc = 1000"
          "realtimeData ?svc = Some \<lparr>trip_updates = [], last_updated = 7\<rparr>"
          "lastRealtimeUpdate ?svc = 271001" "staticLoads ?w = 1" "liveLoads ?w = 4"
    by simp_all
  note t = ensure_cache_contract
             [where svc = ?svc and w = ?w and d = emptyStatic and d' = exampleStatic
                and r = "\<lparr>trip_updates = [], last_updated = 7\<rparr>"
                and net = rejectingNet and decode = failingDecode
                and e = "LoadError ''Error parsing stops.txt''"]
  have c1: "ensureGTFSData exampleLoader 301001 (?svc, ?w)
              = (Inr exampleStatic, ?svc\<lparr>gtfsData := Some exampleStatic, lastDataLoad := 301001\<rparr>,
                 ?w\<lparr>staticLoads := staticLoads ?w + 1\<rparr>)"
    using t [where now = 301001 and load = exampleLoader, THEN conjunct2, THEN conjunct1]
    unfolding g by (simp add: CACHE_DURATION_def exampleLoader_def)
  have c2: "ensureRealtimeData rejectingNet failingDecode 301001 (?svc, ?w)
              = (Inr \<lparr>trip_updates = [], last_updated = 7\<rparr>, ?svc, ?w)"
    using t [where now = 301001 and load = exampleLoader, THEN conjunct2, THEN conjunct2,
             THEN conjunct2, THEN conjunct1]
    unfolding g by (simp add: REALTIME_CACHE_DURATION_def)
  have c3: "ensureGTFSData exampleLoader 301000 (?svc, ?w) = (Inr emptyStatic, ?svc, ?w)"
    using t [where now = 301000 and load = exampleLoader, THEN conjunct1]
    unfolding g by (simp add: CACHE_DURATION_def)
  have c4: "ensureGTFSData failingLoader 301001 (?svc, ?w)
              = (Inl (LoadError ''Error parsing stops.txt''), ?svc,
                 ?w\<lparr>staticLoads := staticLoads ?w + 1\<rparr>)"
    using t [where now = 301001 and load = failingLoader, THEN conjunct2, THEN conjunct2,
             THEN conjunct1]
    unfolding g by (simp add: CACHE_DURATION_def failingLoader_def)
  have c5: "ensureRealtimeData rejectingNet failingDecode 301002 (?svc, ?w)
              = (Inr \<lparr>trip_updates = [], last_updated = 301002\<rparr>,
                 ?svc\<lparr>realtimeData := Some \<lparr>trip_updates = [], last_updated = 301002\<rparr>,
                       lastRealtimeUpdate := 301002\<rparr>,
                 ?w\<lparr>liveLoads := liveLoads ?w + 1\<rparr>)"
    using t [where now = 301002 and load = exampleLoader, THEN conjunct2, THEN conjunct2,
             THEN conjunct2, THEN conjunct2, THEN conjunct1]
    unfolding g f by (simp add: REALTIME_CACHE_DURATION_def)
  show ?thesis
    unfolding c1 c2 c3 c4 c5 by simp
qed

text \<open>
  The specification puts the boundary at \<open>now - lastLoadTime < ttl\<close>. At
  \<open>now - lastLoadTime = ttl\<close> exactly, which is not below the ttl, the code still serves
  the cached snapshot and performs no load: the loader of the example would have thrown.
\<close>

theorem ensure_cache_boundary_counterexample:
  "\<not> (301000 - 1000 < CACHE_DURATION)
 \<and> ensureGTFSData failingLoader 301000
      (\<lparr>gtfsData = Some exampleStatic, realtimeData = None,
        lastDataLoad = 1000, lastRealtimeUpdate = 0\<rparr>,
       \<lparr>staticLoads = 1, liveLoads = 0\<rparr>)
    = (Inr exampleStatic,
       \<lparr>gtfsData = Some exampleStatic, realtimeData = None,
        lastDataLoad = 1000, lastRealtimeUpdate = 0\<rparr>,
       \<lparr>staticLoads = 1, liveLoads = 0\<rparr>)"
  by (simp add: ensureGTFSData_def CACHE_DURATION_def)

section \<open>The live loader never throws\<close>

text \<open>
  C6. \<open>fetchGTFSRealtimeData\<close> always resolves: whatever \<open>fetch\<close>, the body read and the
  decoder do, the result is a snapshot, and on every failure of the attempt (rejected
  fetch, response that is not ok, body that cannot be read, decoder that throws) it is
  the snapshot with no trip updates and \<open>last_updated\<close> equal to the current time.
\<close>

theorem fetchGTFSRealtimeData_never_throws:
  "(\<exists>snapshot. fetchGTFSRealtimeData response decode now = Inr snapshot)
 \<and> (\<forall>e. fetchAttempt response decode now = Inl e \<longrightarrow>
        fetchGTFSRealtimeData response decode now
          = Inr \<lparr>trip_updates = [], last_updated = now\<rparr>)
 \<and> fetchGTFSRealtimeData FetchRejected decode now
      = Inr \<lparr>trip_updates = [], last_updated = now\<rparr>
 \<and> (\<not> ok \<longrightarrow>
      fetchGTFSRealtimeData (Response ok status body) decode now
        = Inr \<lparr>trip_updates = [], last_updated = now\<rparr>)
 \<and> fetchGTFSRealtimeData (Response ok status None) decode now
      = Inr \<lparr>trip_updates = [], last_updated = now\<rparr>
 \<and> (\<forall>e. decode buffer = Inl e \<longrightarrow>
      fetchGTFSRealtimeData (Response ok status (Some buffer)) decode now
        = Inr \<lparr>trip_updates = [], last_updated = now\<rparr>)"
  by (auto simp: fetchGTFSRealtimeData_def fetchAttempt_def parseFeedMessage_def
           split: sum.splits FetchResult.splits option.splits)

theorem fetchGTFSRealtimeData_never_throws_witness:
  "fetchAttempt (Response False 503 None) failingDecode 1000 = Inl (HttpError 503)
 \<and> fetchGTFSRealtimeData (Response False 503 None) failingDecode 1000
     = Inr \<lparr>trip_updates = [], last_updated = 1000\<rparr>
 \<and> fetchGTFSRealtimeData (Response True 200 (Some [8, 1])) failingDecode 1000
     = Inr \<lparr>trip_updates = [], last_updated = 1000\<rparr>
 \<and> fetchGTFSRealtimeData FetchRejected failingDecode 1000
     = Inr \<lparr>trip_updates = [], last_updated = 1000\<rparr>"
  using fetchGTFSRealtimeData_never_throws
          [of "Response False 503 None" failingDecode 1000 False 503 None "[8, 1]"]
        fetchGTFSRealtimeData_never_throws
          [of "Response True 200 (Some [8, 1])" failingDecode 1000 True 200 None "[8, 1]"]
  by (simp add: fetchAttempt_def failingDecode_def)

section \<open>Upcoming departures: future only, sorted, cut to the limit\<close>

lemma set_insertSorted: "set (insertSorted cmp x xs) = insert x (set xs)"
  by (induction xs) auto

lemma set_arraySort: "set (arraySort cmp xs) = set xs"
  by (induction xs) (simp_all add: arraySort_def set_insertSorted)

lemma length_insertSorted: "length (insertSorted cmp x xs) = Suc (length xs)"
  by (induction xs) auto

lemma length_arraySort: "length (arraySort cmp xs) = length xs"
  by (induction xs) (simp_all add: arraySort_def length_insertSorted)

lemma sorted_insertSorted:
  assumes total: "\<And>a b. cmp a b \<le> 0 \<or> cmp b a \<le> 0"
      and trans: "\<And>a b c. cmp a b \<le> 0 \<Longrightarrow> cmp b c \<le> 0 \<Longrightarrow> cmp a c \<le> (0::int)"
  shows "sorted_wrt (\<lambda>a b. cmp a b \<le> 0) xs
         \<Longrightarrow> sorted_wrt (\<lambda>a b. cmp a b \<le> 0) (insertSorted cmp x xs)"
proof (induction xs)
  case Nil
  then show ?case by simp
next
  case (Cons y ys)
  show ?case
  proof (cases "cmp x y \<le> 0")
    case True
    with Cons.prems trans show ?thesis by auto
  next
    case False
    with total have "cmp y x \<le> 0" by blast
    with False Cons show ?thesis by (auto simp: set_insertSorted)
  qed
qed

lemma sorted_arraySort:
  assumes total: "\<And>a b. cmp a b \<le> 0 \<or> cmp b a \<le> 0"
      and trans: "\<And>a b c. cmp a b \<le> 0 \<Longrightarrow> cmp b c \<le> 0 \<Longrightarrow> cmp a c \<le> (0::int)"
  shows "sorted_wrt (\<lambda>a b. cmp a b \<le> 0) (arraySort cmp xs)"
proof (induction xs)
  case Nil
  then show ?case by (simp add: arraySort_def)
next
  case (Cons x xs)
  have "arraySort cmp (x # xs) = insertSorted cmp x (arraySort cmp xs)"
    by (simp add: arraySort_def)
  with Cons sorted_insertSorted [of cmp, OF total trans] show ?case by simp
qed

lemma slice0_take: "\<exists>n. slice0 limit xs = take n xs"
  by (auto simp: slice0_def Let_def)

lemma length_slice0:
  "length (slice0 limit xs)
     = (if limit < 0 then length xs - nat (- limit) else min (nat limit) (length xs))"
  by (auto simp: slice0_def Let_def)

lemma jsStrLess_asym: "jsStrLess a b \<Longrightarrow> \<not> jsStrLess b a"
  by (induction a b rule: jsStrLess.induct) (auto split: if_splits)

lemma jsStrGe_trans: "\<not> jsStrLess b a \<Longrightarrow> \<not> jsStrLess c b \<Longrightarrow> \<not> jsStrLess c a"
proof (induction a b arbitrary: c rule: jsStrLess.induct)
  case 1
  then show ?case by simp
next
  case (2 y ys)
  then show ?case by (cases c) simp_all
next
  case (3 x xs)
  then show ?case by simp
next
  case (4 x xs y ys)
  then show ?case
    by (cases c) (auto split: if_splits)
qed

lemma codeUnitCompare_le: "codeUnitCompare a b \<le> 0 \<longleftrightarrow> \<not> jsStrLess b a"
  using jsStrLess_asym by (auto simp: codeUnitCompare_def)

lemma codeUnitCompare_total: "codeUnitCompare a b \<le> 0 \<or> codeUnitCompare b a \<le> 0"
  using jsStrLess_asym by (auto simp: codeUnitCompare_le)

lemma codeUnitCompare_trans:
  "codeUnitCompare a b \<le> 0 \<Longrightarrow> codeUnitCompare b c \<le> 0 \<Longrightarrow> codeUnitCompare a c \<le> 0"
  using jsStrGe_trans by (simp add: codeUnitCompare_le)

lemma stopStopTimes_prefix:
  "\<exists>n. stopStopTimes localeCompare g now sid limit
        = take n (arraySort (\<lambda>a b. localeCompare (departure_time a) (departure_time b))
                    (filter (\<lambda>st. st_stop_id st = sid \<and> jsStrGe (departure_time st) now)
                            (stopTimes g)))"
proof -
  have "filter (\<lambda>st. jsStrGe (departure_time st) now)
          (filter (\<lambda>st. st_stop_id st = sid) (stopTimes g))
        = filter (\<lambda>st. st_stop_id st = sid \<and> jsStrGe (departure_time st) now) (stopTimes g)"
    by (simp only: filter_filter)
  then show ?thesis
    unfolding stopStopTimes_def using slice0_take [of limit] by simp
qed

text \<open>
  C7, as the code has it. For a collation \<open>localeCompare\<close> that is a consistent ordering,
  every entry of \<open>getUpcomingDepartures\<close> comes from a stop-time of the stop whose
  departure time is not before the current Eastern time text; the entries are in
  ascending order of the scheduled departure time; they are the first entries of that
  sorted list; and their number is \<open>min limit n\<close> for a limit that is not negative,
  where \<open>n\<close> is the number of qualifying stop-times. A negative limit, which
  \<open>slice(0, limit)\<close> counts from the back, drops the last \<open>-limit\<close> entries instead.
\<close>

theorem getUpcomingDepartures_future_sorted_limited:
  assumes total: "\<And>a b. localeCompare a b \<le> 0 \<or> localeCompare b a \<le> 0"
      and trans: "\<And>a b c. localeCompare a b \<le> 0 \<Longrightarrow> localeCompare b c \<le> 0
                     \<Longrightarrow> localeCompare a c \<le> 0"
  shows "(\<forall>d \<in> set (getUpcomingDepartures localeCompare easternClock g rt now sid limit).
            \<exists>st \<in> set (stopTimes g).
               st_stop_id st = sid \<and> jsStrGe (departure_time st) now
             \<and> dep_trip_id d = st_trip_id st \<and> scheduled_departure d = departure_time st)
       \<and> sorted_wrt (\<lambda>a b. localeCompare (scheduled_departure a) (scheduled_departure b) \<le> 0)
            (getUpcomingDepartures localeCompare easternClock g rt now sid limit)
       \<and> (\<exists>n. map scheduled_departure
                  (getUpcomingDepartures localeCompare easternClock g rt now sid limit)
               = take n (map departure_time
                    (arraySort (\<lambda>a b. localeCompare (departure_time a) (departure_time b))
                       (filter (\<lambda>st. st_stop_id st = sid \<and> jsStrGe (departure_time st) now)
                               (stopTimes g)))))
       \<and> (0 \<le> limit \<longrightarrow>
            length (getUpcomingDepartures localeCompare easternClock g rt now sid limit)
              = min (nat limit)
                    (length (filter (\<lambda>st. st_stop_id st = sid \<and> jsStrGe (departure_time st) now)
                                    (stopTimes g))))
       \<and> (limit < 0 \<longrightarrow>
            length (getUpcomingDepartures localeCompare easternClock g rt now sid limit)
              = length (filter (\<lambda>st. st_stop_id st = sid \<and> jsStrGe (departure_time st) now)
                               (stopTimes g))
                - nat (- limit))"
proof -
  let ?cmp = "\<lambda>a b. localeCompare (departure_time a) (departure_time b)"
  let ?Q = "filter (\<lambda>st. st_stop_id st = sid \<and> jsStrGe (departure_time st) now) (stopTimes g)"
  let ?S = "stopStopTimes localeCompare g now sid limit"
  let ?f = "toUpcomingDeparture easternClock g rt sid"
  let ?R = "getUpcomingDepartures localeCompare easternClock g rt now sid limit"
  have R: "?R = map ?f ?S"
    by (simp add: getUpcomingDepartures_def)
  obtain n where n: "?S = take n (arraySort ?cmp ?Q)"
    using stopStopTimes_prefix by blast
  have sched: "\<And>st. scheduled_departure (?f st) = departure_time st"
    and tid: "\<And>st. dep_trip_id (?f st) = st_trip_id st"
    by (simp_all add: toUpcomingDeparture_def Let_def)
  have sub: "set ?S \<subseteq> set ?Q"
    using n set_take_subset [of n "arraySort ?cmp ?Q"] by (simp add: set_arraySort)
  have c1: "\<forall>d \<in> set ?R. \<exists>st \<in> set (stopTimes g).
               st_stop_id st = sid \<and> jsStrGe (departure_time st) now
             \<and> dep_trip_id d = st_trip_id st \<and> scheduled_departure d = departure_time st"
  proof
    fix d assume "d \<in> set ?R"
    then obtain st where st: "st \<in> set ?S" "d = ?f st"
      unfolding R by auto
    with sub have "st \<in> set ?Q" by blast
    with st sched tid show "\<exists>st \<in> set (stopTimes g).
               st_stop_id st = sid \<and> jsStrGe (departure_time st) now
             \<and> dep_trip_id d = st_trip_id st \<and> scheduled_departure d = departure_time st"
      by auto
  qed
  have "sorted_wrt (\<lambda>a b. ?cmp a b \<le> 0) (arraySort ?cmp ?Q)"
  proof (rule sorted_arraySort)
    show "\<And>a b. ?cmp a b \<le> 0 \<or> ?cmp b a \<le> 0"
      using total by blast
    show "\<And>a b c. ?cmp a b \<le> 0 \<Longrightarrow> ?cmp b c \<le> 0 \<Longrightarrow> ?cmp a c \<le> 0"
      using trans by blast
  qed
  then have "sorted_wrt (\<lambda>a b. ?cmp a b \<le> 0) ?S"
    unfolding n by (rule sorted_wrt_take)
  then have c2: "sorted_wrt (\<lambda>a b. localeCompare (scheduled_departure a) (scheduled_departure b) \<le> 0) ?R"
    unfolding R by (simp add: sorted_wrt_map sched)
  have "map scheduled_departure ?R = map departure_time ?S"
    unfolding R by (simp add: sched)
  then have c3: "\<exists>n. map scheduled_departure ?R
                   = take n (map departure_time (arraySort ?cmp ?Q))"
    unfolding n by (auto simp: take_map)
  have len: "length ?R
      = (if limit < 0 then length ?Q - nat (- limit) else min (nat limit) (length ?Q))"
  proof -
    have "filter (\<lambda>st. jsStrGe (departure_time st) now)
            (filter (\<lambda>st. st_stop_id st = sid) (stopTimes g)) = ?Q"
      by (simp only: filter_filter)
    then show ?thesis
      unfolding R stopStopTimes_def by (simp only: length_map length_slice0 length_arraySort)
  qed
  from c1 c2 c3 len show ?thesis by simp
qed

theorem getUpcomingDepartures_future_sorted_limited_witness:
  "length (getUpcomingDepartures codeUnitCompare (clockHMS (- 18000)) exampleStatic
             (exampleLive exampleArrived) ''08:00:00'' ''B'' 1) = 1
 \<and> length (getUpcomingDepartures codeUnitCompare (clockHMS (- 18000)) exampleStatic
             (exampleLive exampleArrived) ''08:00:00'' ''B'' 10) = 2
 \<and> length (getUpcomingDepartures codeUnitCompare (clockHMS (- 18000)) exampleStatic
             (exampleLive exampleArrived) ''08:00:00'' ''B'' (- 1)) = 1
 \<and> sorted_wrt (\<lambda>a b. codeUnitCompare (scheduled_departure a) (scheduled_departure b) \<le> 0)
      (getUpcomingDepartures codeUnitCompare (clockHMS (- 18000)) exampleStatic
             (exampleLive exampleArrived) ''08:00:00'' ''B'' 10)"
proof -
  have q: "length (filter (\<lambda>st. st_stop_id st = ''B'' \<and> jsStrGe (departure_time st) ''08:00:00'')
                          (stopTimes exampleStatic)) = 2"
    by code_simp
  note t = getUpcomingDepartures_future_sorted_limited
             [of codeUnitCompare, OF codeUnitCompare_total codeUnitCompare_trans,
              where easternClock = "clockHMS (- 18000)" and g = exampleStatic
                and rt = "exampleLive exampleArrived" and now = "''08:00:00''"
                and sid = "''B''"]
  from t [where limit = 1] q t [where limit = 10] t [where limit = "- 1"]
  show ?thesis by simp
qed

text \<open>
  The specification promises at most \<open>limit\<close> entries for every limit. With two
  qualifying departures and the limit \<open>-1\<close> the result has one entry.
\<close>

theorem getUpcomingDepartures_negative_limit_counterexample:
  "map scheduled_departure
     (getUpcomingDepartures codeUnitCompare (clockHMS (- 18000)) exampleStatic
        (exampleLive exampleArrived) ''08:00:00'' ''B'' (- 1)) = [''08:05:30'']
 \<and> \<not> int (length (getUpcomingDepartures codeUnitCompare (clockHMS (- 18000)) exampleStatic
                     (exampleLive exampleArrived) ''08:00:00'' ''B'' (- 1))) \<le> - 1"
  by code_simp

section \<open>Calendar activity and the zone of the host\<close>




section \<open>Upcoming departures: the delay fields\<close>

lemma departureFields_explicit:
  "departureFields easternClock su =
     (let dep = (case su of None \<Rightarrow> None | Some u \<Rightarrow> departure u)
      in ((case dep of
             None \<Rightarrow> None
           | Some e \<Rightarrow>
               (case time e of
                  None \<Rightarrow> None
                | Some t \<Rightarrow> if t = 0 then None else Some (easternClock (t * 1000)))),
          (case dep of None \<Rightarrow> None | Some e \<Rightarrow> delay e),
          (case dep of
             None \<Rightarrow> scheduled
           | Some e \<Rightarrow>
               (case delay e of
                  None \<Rightarrow> scheduled
                | Some x \<Rightarrow> if x = 0 then on_time else if 0 < x then late else early))))"
  by (auto simp: departureFields_def Let_def nonZero_def unixTimestampToEasternTime_def
           split: option.splits)

text \<open>
  C9. In the entry made for the \<open>i\<close>-th kept stop-time, with \<open>dep\<close> the departure
  sub-field of the stop update matched to it (undefined when nothing is matched or the
  update has no departure), \<open>delay_seconds\<close> is the delay of \<open>dep\<close>, \<open>delay_status\<close> is
  the classification of that delay, and \<open>estimated_departure\<close> is the Eastern rendering
  of the time of \<open>dep\<close> when that time is present and not 0: the three fields are
  functions of \<open>dep\<close> alone. So an update with arrival data only, or with a departure
  that has no delay, gives \<open>scheduled\<close> and no delay, and an estimated departure is set
  only when the departure carries an absolute time.
\<close>

theorem getUpcomingDepartures_delay_from_departure:
  "\<forall>i < length (getUpcomingDepartures localeCompare easternClock g rt now sid limit).
     (let st = stopStopTimes localeCompare g now sid limit ! i;
          d = getUpcomingDepartures localeCompare easternClock g rt now sid limit ! i;
          su = findStopUpdate (findTripUpdate (st_trip_id st) rt) sid (stop_sequence st);
          dep = (case su of None \<Rightarrow> None | Some u \<Rightarrow> departure u)
      in delay_seconds d = (case dep of None \<Rightarrow> None | Some e \<Rightarrow> delay e)
       \<and> delay_status d =
           (case dep of
              None \<Rightarrow> scheduled
            | Some e \<Rightarrow>
                (case delay e of
                   None \<Rightarrow> scheduled
                 | Some x \<Rightarrow> if x = 0 then on_time else if 0 < x then late else early))
       \<and> estimated_departure d =
           (case dep of
              None \<Rightarrow> None
            | Some e \<Rightarrow>
                (case time e of
                   None \<Rightarrow> None
                 | Some t \<Rightarrow> if t = 0 then None else Some (easternClock (t * 1000))))
       \<and> (dep = None \<or> (\<exists>e. dep = Some e \<and> delay e = None)
            \<longrightarrow> delay_status d = scheduled \<and> delay_seconds d = None)
       \<and> (estimated_departure d \<noteq> None
            \<longrightarrow> (\<exists>e t. dep = Some e \<and> time e = Some t \<and> t \<noteq> 0)))"
proof (intro allI impI)
  fix i
  assume "i < length (getUpcomingDepartures localeCompare easternClock g rt now sid limit)"
  then have i: "i < length (stopStopTimes localeCompare g now sid limit)"
    by (simp add: getUpcomingDepartures_def)
  let ?st = "stopStopTimes localeCompare g now sid limit ! i"
  let ?su = "findStopUpdate (findTripUpdate (st_trip_id ?st) rt) sid (stop_sequence ?st)"
  have d: "getUpcomingDepartures localeCompare easternClock g rt now sid limit ! i
             = toUpcomingDeparture easternClock g rt sid ?st"
    using i by (simp add: getUpcomingDepartures_def)
  have f: "estimated_departure (toUpcomingDeparture easternClock g rt sid ?st)
             = fst (departureFields easternClock ?su)"
          "delay_seconds (toUpcomingDeparture easternClock g rt sid ?st)
             = fst (snd (departureFields easternClock ?su))"
          "delay_status (toUpcomingDeparture easternClock g rt sid ?st)
             = snd (snd (departureFields easternClock ?su))"
    by (simp_all add: toUpcomingDeparture_def Let_def)
  show "let st = stopStopTimes localeCompare g now sid limit ! i;
          d = getUpcomingDepartures localeCompare easternClock g rt now sid limit ! i;
          su = findStopUpdate (findTripUpdate (st_trip_id st) rt) sid (stop_sequence st);
          dep = (case su of None \<Rightarrow> None | Some u \<Rightarrow> departure u)
      in delay_seconds d = (case dep of None \<Rightarrow> None | Some e \<Rightarrow> delay e)
       \<and> delay_status d =
           (case dep of
              None \<Rightarrow> scheduled
            | Some e \<Rightarrow>
                (case delay e of
                   None \<Rightarrow> scheduled
                 | Some x \<Rightarrow> if x = 0 then on_time else if 0 < x then late else early))
       \<and> estimated_departure d =
           (case dep of
              None \<Rightarrow> None
            | Some e \<Rightarrow>
                (case time e of
                   None \<Rightarrow> None
                 | Some t \<Rightarrow> if t = 0 then None else Some (easternClock (t * 1000))))
       \<and> (dep = None \<or> (\<exists>e. dep = Some e \<and> delay e = None)
            \<longrightarrow> delay_status d = scheduled \<and> delay_seconds d = None)
       \<and> (estimated_departure d \<noteq> None
            \<longrightarrow> (\<exists>e t. dep = Some e \<and> time e = Some t \<and> t \<noteq> 0))"
    unfolding Let_def d f departureFields_explicit
    by (auto split: option.splits if_splits)
qed

theorem getUpcomingDepartures_delay_from_departure_witness:
  "delay_status
     (getUpcomingDepartures codeUnitCompare (clockHMS (- 18000)) exampleStatic
        (exampleLive
           [\<lparr>stopId = Some ''B'', stopSequence = None,
             arrival = Some \<lparr>time = Some 90, delay = Some 60\<rparr>, departure = None\<rparr>])
        ''08:00:00'' ''B'' 10 ! 0) = scheduled
 \<and> delay_seconds
     (getUpcomingDepartures codeUnitCompare (clockHMS (- 18000)) exampleStatic
        (exampleLive
           [\<lparr>stopId = Some ''B'', stopSequence = None,
             arrival = Some \<lparr>time = Some 90, delay = Some 60\<rparr>, departure = None\<rparr>])
        ''08:00:00'' ''B'' 10 ! 0) = None
 \<and> estimated_departure
     (getUpcomingDepartures codeUnitCompare (clockHMS (- 18000)) exampleStatic
        (exampleLive
           [\<lparr>stopId = Some ''B'', stopSequence = None,
             arrival = Some \<lparr>time = Some 90, delay = Some 60\<rparr>, departure = None\<rparr>])
        ''08:00:00'' ''B'' 10 ! 0) = None
 \<and> delay_status
     (getUpcomingDepartures codeUnitCompare (clockHMS (- 18000)) exampleStatic
        (exampleLive exampleArrived) ''08:00:00'' ''B'' 10 ! 0) = late
 \<and> delay_seconds
     (getUpcomingDepartures codeUnitCompare (clockHMS (- 18000)) exampleStatic
        (exampleLive exampleArrived) ''08:00:00'' ''B'' 10 ! 0) = Some 60
 \<and> estimated_departure
     (getUpcomingDepartures codeUnitCompare (clockHMS (- 18000)) exampleStatic
        (exampleLive exampleArrived) ''08:00:00'' ''B'' 10 ! 0) = Some ''19:02:30''"
  (is "delay_status (?R ! 0) = _ \<and> _ \<and> _ \<and> delay_status (?R2 ! 0) = _ \<and> _")
proof -
  let ?rt = "exampleLive
           [\<lparr>stopId = Some ''B'', stopSequence = None,
             arrival = Some \<lparr>time = Some 90, delay = Some 60\<rparr>, departure = None\<rparr>]"
  let ?S = "stopStopTimes codeUnitCompare exampleStatic ''08:00:00'' ''B'' 10"
  have len: "0 < length ?R" by code_simp
  have su: "findStopUpdate (findTripUpdate (st_trip_id (?S ! 0)) ?rt) ''B''
              (stop_sequence (?S ! 0))
            = Some \<lparr>stopId = Some ''B'', stopSequence = None,
                    arrival = Some \<lparr>time = Some 90, delay = Some 60\<rparr>, departure = None\<rparr>"
    by code_simp
  have first: "delay_status (?R ! 0) = scheduled \<and> delay_seconds (?R ! 0) = None
                 \<and> estimated_departure (?R ! 0) = None"
    using getUpcomingDepartures_delay_from_departure
         [of codeUnitCompare "clockHMS (- 18000)" exampleStatic ?rt "''08:00:00''" "''B''" 10,
          THEN spec, of 0] len
    unfolding Let_def su by simp
  have len2: "0 < length ?R2" by code_simp
  have su2: "findStopUpdate (findTripUpdate (st_trip_id (?S ! 0)) (exampleLive exampleArrived))
               ''B'' (stop_sequence (?S ! 0))
             = Some \<lparr>stopId = None, stopSequence = Some 2,
                     arrival = Some \<lparr>time = Some 90, delay = Some 60\<rparr>,
                     departure = Some \<lparr>time = Some 150, delay = Some 60\<rparr>\<rparr>"
    by code_simp
  have clock: "clockHMS (- 18000) 150000 = ''19:02:30''" by code_simp
  have second: "delay_status (?R2 ! 0) = late \<and> delay_seconds (?R2 ! 0) = Some 60
                  \<and> estimated_departure (?R2 ! 0) = Some ''19:02:30''"
    using getUpcomingDepartures_delay_from_departure
         [of codeUnitCompare "clockHMS (- 18000)" exampleStatic "exampleLive exampleArrived"
             "''08:00:00''" "''B''" 10,
          THEN spec, of 0] len2
    unfolding Let_def su2 by (simp add: clock)
  from first second show ?thesis by blast
qed

section \<open>Resolving the route of a shape\<close>

text \<open>
  C10, as the code has it. \<open>getRouteShape\<close> works on the first route, in the order of the
  snapshot, whose \<open>route_id\<close> equals the argument or whose short name equals it up to
  case; the two tests are alternatives in one pass, not a first and a second attempt.
  For the route at position \<open>i\<close>, a case variant of its short name selects that route
  when no earlier route matches the variant, and its \<open>route_id\<close> selects it when no
  earlier route matches the \<open>route_id\<close>; when both hold, the two calls of \<open>getRouteShape\<close>
  return the same result.
\<close>

theorem findRoute_first_match:
  "(findRoute g x = Some r \<longleftrightarrow>
      (\<exists>i < length (routes g).
          routes g ! i = r
        \<and> (route_id r = x \<or> toLowerCase (route_short_name r) = toLowerCase x)
        \<and> (\<forall>j < i. route_id (routes g ! j) \<noteq> x
                   \<and> toLowerCase (route_short_name (routes g ! j)) \<noteq> toLowerCase x)))
 \<and> (i < length (routes g)
      \<and> toLowerCase v = toLowerCase (route_short_name (routes g ! i))
      \<and> (\<forall>j < i. route_id (routes g ! j) \<noteq> v
                 \<and> toLowerCase (route_short_name (routes g ! j)) \<noteq> toLowerCase v)
      \<and> (\<forall>j < i. route_id (routes g ! j) \<noteq> route_id (routes g ! i)
                 \<and> toLowerCase (route_short_name (routes g ! j))
                     \<noteq> toLowerCase (route_id (routes g ! i)))
     \<longrightarrow> findRoute g v = Some (routes g ! i)
       \<and> findRoute g (route_id (routes g ! i)) = Some (routes g ! i)
       \<and> getRouteShape g v s e = getRouteShape g (route_id (routes g ! i)) s e)"
proof (intro conjI impI)
  show "findRoute g x = Some r \<longleftrightarrow>
      (\<exists>i < length (routes g).
          routes g ! i = r
        \<and> (route_id r = x \<or> toLowerCase (route_short_name r) = toLowerCase x)
        \<and> (\<forall>j < i. route_id (routes g ! j) \<noteq> x
                   \<and> toLowerCase (route_short_name (routes g ! j)) \<noteq> toLowerCase x))"
    unfolding findRoute_def find_Some_iff by auto
next
  assume a: "i < length (routes g)
      \<and> toLowerCase v = toLowerCase (route_short_name (routes g ! i))
      \<and> (\<forall>j < i. route_id (routes g ! j) \<noteq> v
                 \<and> toLowerCase (route_short_name (routes g ! j)) \<noteq> toLowerCase v)
      \<and> (\<forall>j < i. route_id (routes g ! j) \<noteq> route_id (routes g ! i)
                 \<and> toLowerCase (route_short_name (routes g ! j))
                     \<noteq> toLowerCase (route_id (routes g ! i)))"
  then show v: "findRoute g v = Some (routes g ! i)"
    unfolding findRoute_def find_Some_iff by auto
  from a show r: "findRoute g (route_id (routes g ! i)) = Some (routes g ! i)"
    unfolding findRoute_def find_Some_iff by auto
  from v r show "getRouteShape g v s e = getRouteShape g (route_id (routes g ! i)) s e"
    by (simp add: getRouteShape_def)
qed

theorem findRoute_first_match_witness:
  "findRoute
     (exampleStatic\<lparr>routes :=
        [\<lparr>route_id = ''A'', route_short_name = ''A'', route_long_name = ''8 Avenue Express'',
          route_type = ''1'', route_color = None, route_text_color = None\<rparr>,
         \<lparr>route_id = ''GS'', route_short_name = ''S'', route_long_name = ''42 St Shuttle'',
          route_type = ''1'', route_color = None, route_text_color = None\<rparr>]\<rparr>)
     ''s''
   = Some \<lparr>route_id = ''GS'', route_short_name = ''S'', route_long_name = ''42 St Shuttle'',
           route_type = ''1'', route_color = None, route_text_color = None\<rparr>
 \<and> getRouteShape
     (exampleStatic\<lparr>routes :=
        [\<lparr>route_id = ''A'', route_short_name = ''A'', route_long_name = ''8 Avenue Express'',
          route_type = ''1'', route_color = None, route_text_color = None\<rparr>,
         \<lparr>route_id = ''GS'', route_short_name = ''S'', route_long_name = ''42 St Shuttle'',
          route_type = ''1'', route_color = None, route_text_color = None\<rparr>]\<rparr>)
     ''s'' None (Some ''B'')
   = getRouteShape
     (exampleStatic\<lparr>routes :=
        [\<lparr>route_id = ''A'', route_short_name = ''A'', route_long_name = ''8 Avenue Express'',
          route_type = ''1'', route_color = None, route_text_color = None\<rparr>,
         \<lparr>route_id = ''GS'', route_short_name = ''S'', route_long_name = ''42 St Shuttle'',
          route_type = ''1'', route_color = None, route_text_color = None\<rparr>]\<rparr>)
     ''GS'' None (Some ''B'')"
  (is "findRoute ?g ''s'' = Some ?r \<and> _")
proof -
  have below1: "\<And>j::nat. j < 1 \<Longrightarrow> j = 0" by simp
  have lower: "toLowerCase ''s'' = ''s''" "toLowerCase ''S'' = ''s''" "toLowerCase ''A'' = ''a''"
              "toLowerCase ''GS'' = ''gs''"
    by (simp_all add: toLowerCase_def lowerChar_def)
  show ?thesis
    using findRoute_first_match [of ?g "''s''" ?r 1 "''s''" None "Some ''B''", THEN conjunct2]
          below1 lower
    by auto
qed

text \<open>
  The specification's sentence fails when two routes share a short name, as the shuttles of the
  example do: for the route GS, its short name selects the route FS, which comes first,
  and its \<open>route_id\<close> selects GS itself.
\<close>

theorem findRoute_shared_short_name_counterexample:
  "route_id (routes exampleStatic ! 1) = ''GS''
 \<and> route_short_name (routes exampleStatic ! 1) = ''S''
 \<and> toLowerCase ''s'' = toLowerCase ''S''
 \<and> map_option route_id (findRoute exampleStatic ''s'') = Some ''FS''
 \<and> map_option route_id (findRoute exampleStatic ''GS'') = Some ''GS''
 \<and> map_option routeName (getRouteShape exampleStatic ''s'' None None)
     = Some ''S - Franklin Av Shuttle''
 \<and> map_option routeName (getRouteShape exampleStatic ''GS'' None None)
     = Some ''S - 42 St Shuttle''"
  by code_simp

end
